theory Spec2Isabelle
  imports Main "HOL-Library.AList" "HOL-Library.Sublist"
begin

section \<open>Errors\<close>

text \<open>
  Go errors are values. The client code builds them with \<^verbatim>\<open>fmt.Errorf\<close>, either from a
  plain message or by wrapping another error with \<^verbatim>\<open>%w\<close>; the API server answers with
  status errors that carry a reason; discovery has its own partial-failure error.
\<close>

datatype StatusReason =
    StatusReasonNotFound
  | StatusReasonAlreadyExists
  | StatusReasonConflict
  | StatusReasonForbidden
  | StatusReasonInvalid
  | StatusReasonInternalError
  | StatusReasonUnknown

datatype error =
    StatusError StatusReason string
  | ErrGroupDiscoveryFailed string
  | ErrorString string
  | Errorf string error

text \<open>The message of an error (\<^verbatim>\<open>err.Error()\<close>, what \<^verbatim>\<open>%v\<close> prints).\<close>

fun Error :: "error \<Rightarrow> string" where
  "Error (StatusError r m) = m"
| "Error (ErrGroupDiscoveryFailed m) = m"
| "Error (ErrorString m) = m"
| "Error (Errorf p e) = p @ '': '' @ Error e"

text \<open>The reason of an error is looked up through the chain of wrapped errors.\<close>

fun ReasonForError :: "error \<Rightarrow> StatusReason" where
  "ReasonForError (StatusError r m) = r"
| "ReasonForError (Errorf p e) = ReasonForError e"
| "ReasonForError (ErrGroupDiscoveryFailed m) = StatusReasonUnknown"
| "ReasonForError (ErrorString m) = StatusReasonUnknown"

text \<open>\<^verbatim>\<open>errors.IsNotFound(err)\<close>; the argument may be \<^verbatim>\<open>nil\<close>.\<close>

fun IsNotFound :: "error option \<Rightarrow> bool" where
  "IsNotFound None = False"
| "IsNotFound (Some e) = (ReasonForError e = StatusReasonNotFound)"

text \<open>\<^verbatim>\<open>discovery.IsGroupDiscoveryFailedError(err)\<close>: a type test on the error itself.\<close>

fun IsGroupDiscoveryFailedError :: "error option \<Rightarrow> bool" where
  "IsGroupDiscoveryFailedError (Some (ErrGroupDiscoveryFailed m)) = True"
| "IsGroupDiscoveryFailedError _ = False"

text \<open>The error half of a Go result pair \<^verbatim>\<open>(value, err)\<close>.\<close>

fun err_of :: "error + 'a \<Rightarrow> error option" where
  "err_of (Inl e) = Some e"
| "err_of (Inr v) = None"

section \<open>Unstructured documents\<close>

text \<open>
  The value tree that \<^verbatim>\<open>encoding/json\<close> decodes into \<^verbatim>\<open>interface{}\<close>. A number is
  kept as its literal. A \<^verbatim>\<open>map[string]interface{}\<close> is an association list read with
  \<^const>\<open>map_of\<close>; the \<^verbatim>\<open>nil\<close> map reads like the empty one.
\<close>

datatype json =
    JNull
  | JBool bool
  | JNumber string
  | JString string
  | JArray "json list"
  | JObject "(string \<times> json) list"

type_synonym object = "(string \<times> json) list"

type_synonym bytes = string

text \<open>Go's triple \<^verbatim>\<open>(value, found, err)\<close> of the nested-field helpers.\<close>

datatype 'a nested = Found 'a | NotPresent | AccessorError

text \<open>
  \<^verbatim>\<open>unstructured.NestedFieldNoCopy\<close>: walk the path; a \<^verbatim>\<open>nil\<close> value or a missing
  key is "not found", a value on the way that is not a map is an error.
\<close>

fun NestedFieldNoCopy :: "json \<Rightarrow> string list \<Rightarrow> json nested" where
  "NestedFieldNoCopy val [] = Found val"
| "NestedFieldNoCopy val (field # fields) =
     (case val of
        JNull \<Rightarrow> NotPresent
      | JObject m \<Rightarrow>
          (case map_of m field of
             None \<Rightarrow> NotPresent
           | Some v \<Rightarrow> NestedFieldNoCopy v fields)
      | _ \<Rightarrow> AccessorError)"

definition NestedString :: "object \<Rightarrow> string list \<Rightarrow> string nested" where
  "NestedString obj fields =
     (case NestedFieldNoCopy (JObject obj) fields of
        Found (JString s) \<Rightarrow> Found s
      | Found _ \<Rightarrow> AccessorError
      | NotPresent \<Rightarrow> NotPresent
      | AccessorError \<Rightarrow> AccessorError)"

definition NestedMap :: "object \<Rightarrow> string list \<Rightarrow> object nested" where
  "NestedMap obj fields =
     (case NestedFieldNoCopy (JObject obj) fields of
        Found (JObject m) \<Rightarrow> Found m
      | Found _ \<Rightarrow> AccessorError
      | NotPresent \<Rightarrow> NotPresent
      | AccessorError \<Rightarrow> AccessorError)"

definition getNestedString :: "object \<Rightarrow> string list \<Rightarrow> string" where
  "getNestedString obj fields =
     (case NestedString obj fields of Found s \<Rightarrow> s | _ \<Rightarrow> [])"

text \<open>
  \<^verbatim>\<open>unstructured.SetNestedField\<close>: descend through existing maps, create the missing
  ones, and fail (changing nothing) at a value on the way that is not a map. The path is
  never empty in this program.
\<close>

fun SetNestedField :: "object \<Rightarrow> json \<Rightarrow> string list \<Rightarrow> object option" where
  "SetNestedField m v [] = None"
| "SetNestedField m v [field] = Some (AList.update field v m)"
| "SetNestedField m v (field # fields) =
     (case map_of m field of
        Some (JObject valMap) \<Rightarrow>
          map_option (\<lambda>x. AList.update field (JObject x) m) (SetNestedField valMap v fields)
      | Some _ \<Rightarrow> None
      | None \<Rightarrow>
          map_option (\<lambda>x. AList.update field (JObject x) m) (SetNestedField [] v fields))"

text \<open>\<^verbatim>\<open>unstructured.RemoveNestedField\<close>: delete the last key if the path to it exists.\<close>

fun RemoveNestedField :: "object \<Rightarrow> string list \<Rightarrow> object" where
  "RemoveNestedField m [] = m"
| "RemoveNestedField m [field] = AList.delete field m"
| "RemoveNestedField m (field # fields) =
     (case map_of m field of
        Some (JObject x) \<Rightarrow> AList.update field (JObject (RemoveNestedField x fields)) m
      | _ \<Rightarrow> m)"

text \<open>The accessors of \<^verbatim>\<open>unstructured.Unstructured\<close> that the client uses.\<close>

definition GetName :: "object \<Rightarrow> string" where
  "GetName obj = getNestedString obj [''metadata'', ''name'']"

definition GetNamespace :: "object \<Rightarrow> string" where
  "GetNamespace obj = getNestedString obj [''metadata'', ''namespace'']"

definition GetKind :: "object \<Rightarrow> string" where
  "GetKind obj = getNestedString obj [''kind'']"

text \<open>
  \<^verbatim>\<open>SetNamespace\<close>: the empty namespace removes the field; otherwise the field is set,
  and an error of the nested setter is dropped, leaving the object as it was.
\<close>

definition SetNamespace :: "string \<Rightarrow> object \<Rightarrow> object" where
  "SetNamespace namespace obj =
     (if namespace = [] then RemoveNestedField obj [''metadata'', ''namespace'']
      else case SetNestedField obj (JString namespace) [''metadata'', ''namespace''] of
             Some obj' \<Rightarrow> obj'
           | None \<Rightarrow> obj)"

section \<open>The cluster and the client state\<close>

record GroupVersionResource =
  Group :: string
  Version :: string
  Resource :: string

record APIResource =
  Name :: string
  Kind :: string

record APIResourceList =
  GroupVersion :: string
  APIResources :: "APIResource list"

record Container =
  ContainerName :: string

record PodSpec =
  Containers :: "Container list"

record Pod =
  Spec :: PodSpec

datatype PatchType = MergePatchType | StrategicMergePatchType

text \<open>
  Every call the client makes on its Kubernetes clients, and every lock operation on the
  cache, is an event. The events of a run are kept in order, so that calls can be counted
  and their order read off. Calls run one after the other; interleavings of concurrent
  calls are not modelled. The arguments are: the name of the namespace looked up or
  created (the namespace object that is created is built from that name alone); the
  namespace and name of a pod; for a log request also the container (empty when not
  set) and the number of tail lines; for the dynamic client the resource coordinates,
  the namespace (empty for a cluster-scoped request), and then the object name, or the
  name, patch type and patch body, or the document to create.
\<close>

datatype event =
    RLock
  | RUnlock
  | Lock
  | Unlock
  | ServerPreferredResources
  | NamespacesGet string
  | NamespacesCreate string
  | PodsGet string string
  | PodsGetLogs string string string nat
  | ResourceGet GroupVersionResource string string
  | ResourcePatch GroupVersionResource string string PatchType bytes
  | ResourceCreate GroupVersionResource string object

text \<open>
  The cluster answers each call; its answer may depend on everything that happened
  before, so the same call can be answered differently later. A log stream that opened
  carries its content and the error, if any, that reading it ends with. The two decoders
  and the clock are the library functions the client calls.
\<close>

record cluster =
  discovery_reply :: "event list \<Rightarrow> APIResourceList list \<times> error option"
  namespace_reply :: "event list \<Rightarrow> event \<Rightarrow> error option"
  pod_reply :: "event list \<Rightarrow> event \<Rightarrow> error + Pod"
  logs_reply :: "event list \<Rightarrow> event \<Rightarrow> error + (string \<times> error option)"
  dynamic_reply :: "event list \<Rightarrow> event \<Rightarrow> error + object"
  json_Unmarshal :: "bytes \<Rightarrow> error + object"
  YAMLToJSON :: "bytes \<Rightarrow> error + bytes"
  time_Now :: "event list \<Rightarrow> string"

text \<open>
  The client's own state: the cache of resolved kinds (\<^verbatim>\<open>apiResourceCache\<close>), with the
  events so far and the lines printed to standard output.
\<close>

record state =
  apiResourceCache :: "string \<rightharpoonup> GroupVersionResource"
  trace :: "event list"
  stdout :: "string list"

definition log :: "event \<Rightarrow> state \<Rightarrow> state" where
  "log e s = s\<lparr>trace := trace s @ [e]\<rparr>"

definition Printf :: "string \<Rightarrow> state \<Rightarrow> state" where
  "Printf line s = s\<lparr>stdout := stdout s @ [line]\<rparr>"

text \<open>
  A request of the typed clientset that names a resource is refused by the request
  builder itself when the name is empty (\<^verbatim>\<open>rest.Request.Name\<close>); the cluster is not asked.
\<close>

definition Request_Name :: "string \<Rightarrow> error option" where
  "Request_Name resourceName =
     (if resourceName = [] then Some (ErrorString ''resource name may not be empty'') else None)"

definition Namespaces_Get :: "cluster \<Rightarrow> string \<Rightarrow> state \<Rightarrow> error option \<times> state" where
  "Namespaces_Get k name s =
     ((case Request_Name name of
         Some e \<Rightarrow> Some e
       | None \<Rightarrow> namespace_reply k (trace s) (NamespacesGet name)),
      log (NamespacesGet name) s)"

definition Namespaces_Create :: "cluster \<Rightarrow> string \<Rightarrow> state \<Rightarrow> error option \<times> state" where
  "Namespaces_Create k name s =
     (namespace_reply k (trace s) (NamespacesCreate name), log (NamespacesCreate name) s)"

definition Pods_Get :: "cluster \<Rightarrow> string \<Rightarrow> string \<Rightarrow> state \<Rightarrow> (error + Pod) \<times> state" where
  "Pods_Get k namespace name s =
     ((case Request_Name name of
         Some e \<Rightarrow> Inl e
       | None \<Rightarrow> pod_reply k (trace s) (PodsGet namespace name)),
      log (PodsGet namespace name) s)"

definition GetLogs_Stream ::
  "cluster \<Rightarrow> string \<Rightarrow> string \<Rightarrow> string \<Rightarrow> nat \<Rightarrow> state \<Rightarrow>
   (error + (string \<times> error option)) \<times> state" where
  "GetLogs_Stream k namespace name container tailLines s =
     ((case Request_Name name of
         Some e \<Rightarrow> Inl e
       | None \<Rightarrow> logs_reply k (trace s) (PodsGetLogs namespace name container tailLines)),
      log (PodsGetLogs namespace name container tailLines) s)"

definition Resource_Get ::
  "cluster \<Rightarrow> GroupVersionResource \<Rightarrow> string \<Rightarrow> string \<Rightarrow> state \<Rightarrow> (error + object) \<times> state" where
  "Resource_Get k gvr namespace name s =
     (dynamic_reply k (trace s) (ResourceGet gvr namespace name),
      log (ResourceGet gvr namespace name) s)"

definition Resource_Patch ::
  "cluster \<Rightarrow> GroupVersionResource \<Rightarrow> string \<Rightarrow> string \<Rightarrow> PatchType \<Rightarrow> bytes \<Rightarrow> state \<Rightarrow>
   (error + object) \<times> state" where
  "Resource_Patch k gvr namespace name pt data s =
     (dynamic_reply k (trace s) (ResourcePatch gvr namespace name pt data),
      log (ResourcePatch gvr namespace name pt data) s)"

definition Resource_Create ::
  "cluster \<Rightarrow> GroupVersionResource \<Rightarrow> string \<Rightarrow> object \<Rightarrow> state \<Rightarrow> (error + object) \<times> state" where
  "Resource_Create k gvr namespace obj s =
     (dynamic_reply k (trace s) (ResourceCreate gvr namespace obj),
      log (ResourceCreate gvr namespace obj) s)"

section \<open>Kind resolution\<close>

text \<open>
  \<^verbatim>\<open>schema.ParseGroupVersion\<close>: empty or a lone slash is the empty pair, no slash is a
  version of the core group, one slash separates group and version, more is an error.
\<close>

definition ParseGroupVersion :: "string \<Rightarrow> error + (string \<times> string)" where
  "ParseGroupVersion gv =
     (if gv = [] \<or> gv = ''/'' then Inr ([], [])
      else if count_list gv (CHR ''/'') = 0 then Inr ([], gv)
      else if count_list gv (CHR ''/'') = 1 then
        Inr (takeWhile (\<lambda>c. c \<noteq> CHR ''/'') gv, tl (dropWhile (\<lambda>c. c \<noteq> CHR ''/'') gv))
      else Inl (ErrorString (''unexpected GroupVersion string: '' @ gv)))"

text \<open>The two nested loops of \<^verbatim>\<open>getCachedGVR\<close>: the first resource whose kind matches.\<close>

fun scan_resources ::
  "string \<Rightarrow> string \<times> string \<Rightarrow> APIResource list \<Rightarrow> GroupVersionResource option" where
  "scan_resources kind gv [] = None"
| "scan_resources kind gv (resource # rest) =
     (if Kind resource = kind
      then Some \<lparr>Group = fst gv, Version = snd gv, Resource = Name resource\<rparr>
      else scan_resources kind gv rest)"

fun scan_lists :: "string \<Rightarrow> APIResourceList list \<Rightarrow> GroupVersionResource option" where
  "scan_lists kind [] = None"
| "scan_lists kind (resourceList # rest) =
     (case ParseGroupVersion (GroupVersion resourceList) of
        Inl err \<Rightarrow> scan_lists kind rest
      | Inr gv \<Rightarrow>
          (case scan_resources kind gv (APIResources resourceList) of
             Some gvr \<Rightarrow> Some gvr
           | None \<Rightarrow> scan_lists kind rest))"

definition getCachedGVR ::
  "cluster \<Rightarrow> string \<Rightarrow> state \<Rightarrow> (error + GroupVersionResource) \<times> state" where
  "getCachedGVR k kind s0 =
     (let s1 = log RLock s0 in
      case apiResourceCache s1 kind of
        Some gvr \<Rightarrow> (Inr gvr, log RUnlock s1)
      | None \<Rightarrow>
          (let s2 = log RUnlock s1;
               (resourceLists, err) = discovery_reply k (trace s2);
               s3 = log ServerPreferredResources s2
           in case (if IsGroupDiscoveryFailedError err then None else err) of
                Some e \<Rightarrow> (Inl (Errorf ''failed to retrieve API resources'' e), s3)
              | None \<Rightarrow>
                  (case scan_lists kind resourceLists of
                     Some gvr \<Rightarrow>
                       (Inr gvr,
                        log Unlock ((log Lock s3)\<lparr>apiResourceCache :=
                          (apiResourceCache s3)(kind \<mapsto> gvr)\<rparr>))
                   | None \<Rightarrow>
                       (Inl (ErrorString (''resource type '' @ kind @ '' not found'')), s3))))"

section \<open>Reading resources\<close>

definition GetResource ::
  "cluster \<Rightarrow> string \<Rightarrow> string \<Rightarrow> string \<Rightarrow> state \<Rightarrow> (error + object) \<times> state" where
  "GetResource k kind name namespace s0 =
     (case getCachedGVR k kind s0 of
        (Inl err, s1) \<Rightarrow> (Inl err, s1)
      | (Inr gvr, s1) \<Rightarrow>
          (let (r, s2) = (if namespace \<noteq> [] then Resource_Get k gvr namespace name s1
                          else Resource_Get k gvr [] name s1)
           in case r of
                Inl err \<Rightarrow> (Inl (Errorf ''failed to retrieve resource'' err), s2)
              | Inr obj \<Rightarrow> (Inr obj, s2)))"

definition DescribeResource ::
  "cluster \<Rightarrow> string \<Rightarrow> string \<Rightarrow> string \<Rightarrow> state \<Rightarrow> (error + object) \<times> state" where
  "DescribeResource k kind name namespace s0 =
     (case getCachedGVR k kind s0 of
        (Inl err, s1) \<Rightarrow> (Inl err, s1)
      | (Inr gvr, s1) \<Rightarrow>
          (let (r, s2) = (if namespace \<noteq> [] then Resource_Get k gvr namespace name s1
                          else Resource_Get k gvr [] name s1)
           in case r of
                Inl err \<Rightarrow> (Inl (Errorf ''failed to retrieve resource'' err), s2)
              | Inr obj \<Rightarrow> (Inr obj, s2)))"

section \<open>Create or update\<close>

definition newline :: string where
  "newline = [CHR 0x0A]"

definition CreateOrUpdateResourceJSON ::
  "cluster \<Rightarrow> string \<Rightarrow> bytes \<Rightarrow> string \<Rightarrow> state \<Rightarrow> (error + object) \<times> state" where
  "CreateOrUpdateResourceJSON k namespace manifestJSON kind s0 =
     (case json_Unmarshal k manifestJSON of
        Inl err \<Rightarrow> (Inl (Errorf ''failed to parse resource manifest JSON'' err), s0)
      | Inr obj0 \<Rightarrow>
          (case getCachedGVR k kind s0 of
             (Inl err, s1) \<Rightarrow> (Inl err, s1)
           | (Inr gvr, s1) \<Rightarrow>
               (let (err, s2) = Namespaces_Get k namespace s1;
                    s3 = (if err = None
                          then Printf (''Namespace '' @ namespace @ '' exists'' @ newline) s2
                          else s2);
                    (err, s4) =
                      (if IsNotFound err
                       then Namespaces_Create k namespace
                              (Printf (''Namespace '' @ namespace @
                                 '' does not exist, creating one'' @ newline) s3)
                       else (err, s3))
                in case err of
                     Some e \<Rightarrow> (Inl (Errorf ''failed to retrieve namespace resource'' e), s4)
                   | None \<Rightarrow>
                       (let obj = SetNamespace namespace obj0 in
                        if GetName obj = [] then (Inl (ErrorString ''resource name is required''), s4)
                        else
                          (let (result, s5) =
                                 Resource_Patch k gvr (GetNamespace obj) (GetName obj)
                                   MergePatchType manifestJSON s4;
                               (result, s6) =
                                 (if IsNotFound (err_of result)
                                  then Resource_Create k gvr (GetNamespace obj) obj s5
                                  else (result, s5))
                           in case result of
                                Inl e \<Rightarrow>
                                  (Inl (Errorf ''failed to create or patch resource'' e), s6)
                              | Inr content \<Rightarrow> (Inr content, s6))))))"

definition CreateOrUpdateResourceYAML ::
  "cluster \<Rightarrow> string \<Rightarrow> bytes \<Rightarrow> string \<Rightarrow> state \<Rightarrow> (error + object) \<times> state" where
  "CreateOrUpdateResourceYAML k namespace yamlManifest kind s0 =
     (case YAMLToJSON k yamlManifest of
        Inl err \<Rightarrow> (Inl (Errorf ''failed to parse YAML manifest'' err), s0)
      | Inr jsonData \<Rightarrow>
          (case json_Unmarshal k jsonData of
             Inl err \<Rightarrow>
               (Inl (Errorf ''failed to parse converted JSON from YAML manifest'' err), s0)
           | Inr obj0 \<Rightarrow>
               (let resourceKind = (if kind = [] then GetKind obj0 else kind) in
                if resourceKind = [] then
                  (Inl (ErrorString
''resource kind is required: either provide it as a parameter or include it in the YAML manifest''),
                   s0)
                else
                  (case getCachedGVR k resourceKind s0 of
                     (Inl err, s1) \<Rightarrow> (Inl err, s1)
                   | (Inr gvr, s1) \<Rightarrow>
                       (let obj = (if namespace \<noteq> [] then SetNamespace namespace obj0 else obj0) in
                        if GetName obj = []
                        then (Inl (ErrorString ''resource name is required in YAML manifest''), s1)
                        else
                          (let (result, s2) =
                                 Resource_Patch k gvr (GetNamespace obj) (GetName obj)
                                   MergePatchType jsonData s1;
                               (result, s3) =
                                 (if IsNotFound (err_of result)
                                  then Resource_Create k gvr (GetNamespace obj) obj s2
                                  else (result, s2))
                           in case result of
                                Inl e \<Rightarrow>
                                  (Inl (Errorf
                                     ''failed to create or patch resource from YAML manifest''
                                     e), s3)
                              | Inr content \<Rightarrow> (Inr content, s3)))))))"

section \<open>Rollout restart\<close>

definition RolloutRestart ::
  "cluster \<Rightarrow> string \<Rightarrow> string \<Rightarrow> string \<Rightarrow> state \<Rightarrow> (error + object) \<times> state" where
  \<open>RolloutRestart k kind name namespace s0 =
     (case getCachedGVR k kind s0 of
        (Inl err, s1) \<Rightarrow> (Inl (Errorf (''failed to get GVR for kind '' @ kind) err), s1)
      | (Inr gvr, s1) \<Rightarrow>
          (let patch =
                 ''{"spec":{"template":{"metadata":{"annotations":'' @
                 ''{"kubectl.kubernetes.io/restartedAt":"'' @ time_Now k (trace s1) @ ''"}}}}}'';
               (result, s2) =
                 Resource_Patch k gvr namespace name StrategicMergePatchType patch s1
           in case result of
                Inl err \<Rightarrow>
                  (Inl (Errorf (''failed to rollout restart '' @ kind @ '' '' @ namespace @
                     ''/'' @ name) err), s2)
              | Inr content \<Rightarrow>
                  (case NestedMap content [''spec'', ''template''] of
                     Found spec \<Rightarrow> (Inr content, s2)
                   | _ \<Rightarrow>
                       (Inl (ErrorString (''resource kind '' @ kind @
                          '' does not support rollout restart (no spec.template)'')), s2))))\<close>

section \<open>Pod logs\<close>

text \<open>What one round of the loop over the containers appends to the output.\<close>

definition log_section :: "string \<Rightarrow> error + (string \<times> error option) \<Rightarrow> string" where
  "log_section name r =
     (case r of
        Inl err \<Rightarrow>
          newline @ ''--- Error getting logs for container '' @ name @ '': '' @ Error err @
          '' ---'' @ newline
      | Inr (content, copy_err) \<Rightarrow>
          newline @ ''--- Logs for container '' @ name @ '' ---'' @ newline @
          (case copy_err of
             Some err \<Rightarrow> ''Error reading logs: '' @ Error err @ newline
           | None \<Rightarrow> content))"

fun logs_loop ::
  "cluster \<Rightarrow> string \<Rightarrow> string \<Rightarrow> nat \<Rightarrow> Container list \<Rightarrow> string \<Rightarrow> state \<Rightarrow> string \<times> state" where
  "logs_loop k namespace podName tailLines [] allLogs s = (allLogs, s)"
| "logs_loop k namespace podName tailLines (container # rest) allLogs s =
     (let (r, s1) = GetLogs_Stream k namespace podName (ContainerName container) tailLines s
      in logs_loop k namespace podName tailLines rest
           (allLogs @ log_section (ContainerName container) r) s1)"

definition GetPodsLogs ::
  "cluster \<Rightarrow> string \<Rightarrow> string \<Rightarrow> string \<Rightarrow> state \<Rightarrow> (error + string) \<times> state" where
  "GetPodsLogs k namespace containerName podName s0 =
     (let tailLines = 100 in
      if containerName \<noteq> [] then
        (case GetLogs_Stream k namespace podName containerName tailLines s0 of
           (Inl err, s1) \<Rightarrow>
             (Inl (Errorf (''failed to get logs for container '' @ [CHR 0x27] @ containerName @
                [CHR 0x27]) err), s1)
         | (Inr (content, copy_err), s1) \<Rightarrow>
             (case copy_err of
                Some err \<Rightarrow> (Inl (Errorf ''failed to read logs'' err), s1)
              | None \<Rightarrow> (Inr content, s1)))
      else
        (case Pods_Get k namespace podName s0 of
           (Inl err, s1) \<Rightarrow> (Inl (Errorf ''failed to get pod details'' err), s1)
         | (Inr pod, s1) \<Rightarrow>
             if length (Containers (Spec pod)) = 1 then
               (case GetLogs_Stream k namespace podName [] tailLines s1 of
                  (Inl err, s2) \<Rightarrow> (Inl (Errorf ''failed to get logs'' err), s2)
                | (Inr (content, copy_err), s2) \<Rightarrow>
                    (case copy_err of
                       Some err \<Rightarrow> (Inl (Errorf ''failed to read logs'' err), s2)
                     | None \<Rightarrow> (Inr content, s2)))
             else
               (let (allLogs, s2) =
                      logs_loop k namespace podName tailLines (Containers (Spec pod)) [] s1
                in (Inr allLogs, s2))))"

section \<open>Connection resolution\<close>

record rest_Config =
  Host :: string
  BearerToken :: string
  Insecure :: bool
  CAData :: bytes

text \<open>
  What \<^verbatim>\<open>BuildKubernetesConfig\<close> reads from its process: the environment, the file
  system, the home directory, and the loaders of \<^verbatim>\<open>clientcmd\<close> and \<^verbatim>\<open>rest\<close>. The
  type \<open>'c\<close> is the kubeconfig object that \<^verbatim>\<open>clientcmd.Load\<close> returns.
\<close>

record 'c process =
  Getenv :: "string \<Rightarrow> string"
  ReadFile :: "string \<Rightarrow> error + bytes"
  Stat :: "string \<Rightarrow> error option"
  HomeDir :: string
  filepath_Join :: "string list \<Rightarrow> string"
  clientcmd_Load :: "bytes \<Rightarrow> error + 'c"
  ClientConfig :: "'c \<Rightarrow> error + rest_Config"
  InClusterConfig :: "error + rest_Config"
  BuildConfigFromFlags :: "string \<Rightarrow> string \<Rightarrow> error + rest_Config"

definition serviceAccountTokenPath :: string where
  "serviceAccountTokenPath = ''/var/run/secrets/kubernetes.io/serviceaccount/token''"

definition BuildKubernetesConfig :: "'c process \<Rightarrow> string \<Rightarrow> error + rest_Config" where
  "BuildKubernetesConfig p kubeconfigPath =
     (if Getenv p ''KUBECONFIG_DATA'' \<noteq> [] then
        (case clientcmd_Load p (Getenv p ''KUBECONFIG_DATA'') of
           Inl err \<Rightarrow> Inl (Errorf ''failed to load kubeconfig from KUBECONFIG_DATA'' err)
         | Inr configObj \<Rightarrow>
             (case ClientConfig p configObj of
                Inl err \<Rightarrow> Inl (Errorf ''failed to build REST config from KUBECONFIG_DATA'' err)
              | Inr config \<Rightarrow> Inr config))
      else if Getenv p ''KUBERNETES_SERVER'' \<noteq> [] then
        (if Getenv p ''KUBERNETES_TOKEN'' = [] then
           Inl (ErrorString
             ''KUBERNETES_TOKEN environment variable is required when KUBERNETES_SERVER is set'')
         else
           (let config = \<lparr>Host = Getenv p ''KUBERNETES_SERVER'',
                          BearerToken = Getenv p ''KUBERNETES_TOKEN'',
                          Insecure = (Getenv p ''KUBERNETES_INSECURE'' = ''true''),
                          CAData = []\<rparr>
            in if Getenv p ''KUBERNETES_CA_CERT'' \<noteq> [] then
                 Inr (config\<lparr>CAData := Getenv p ''KUBERNETES_CA_CERT''\<rparr>)
               else if Getenv p ''KUBERNETES_CA_CERT_PATH'' \<noteq> [] then
                 (case ReadFile p (Getenv p ''KUBERNETES_CA_CERT_PATH'') of
                    Inl err \<Rightarrow>
                      Inl (Errorf (''failed to read CA certificate from '' @
                        Getenv p ''KUBERNETES_CA_CERT_PATH'') err)
                  | Inr caCertData \<Rightarrow> Inr (config\<lparr>CAData := caCertData\<rparr>))
               else Inr config))
      else if Stat p serviceAccountTokenPath = None then
        (case InClusterConfig p of
           Inl err \<Rightarrow> Inl (Errorf ''failed to create in-cluster config'' err)
         | Inr config \<Rightarrow> Inr config)
      else
        (let kubeconfig =
               (if kubeconfigPath \<noteq> [] then kubeconfigPath
                else if Getenv p ''KUBECONFIG'' \<noteq> [] then Getenv p ''KUBECONFIG''
                else if HomeDir p \<noteq> [] then filepath_Join p [HomeDir p, ''.kube'', ''config'']
                else [])
         in case BuildConfigFromFlags p [] kubeconfig of
              Inl err \<Rightarrow> Inl (Errorf ''failed to create Kubernetes configuration'' err)
            | Inr config \<Rightarrow> Inr config))"

section \<open>Runs of client operations\<close>

text \<open>
  \<^verbatim>\<open>NewClient\<close> starts with an empty cache; nothing has happened yet.
\<close>

definition NewClient :: state where
  "NewClient = \<lparr>apiResourceCache = Map.empty, trace = [], stdout = []\<rparr>"

text \<open>
  The operations of the client, with their arguments; \<open>Resolve\<close> stands for any other
  method, all of which begin by resolving a kind. A run executes operations one after the
  other on the same cluster and keeps the state.
\<close>

datatype operation =
    Resolve string
  | OpGetResource string string string
  | OpDescribeResource string string string
  | OpCreateOrUpdateResourceJSON string bytes string
  | OpCreateOrUpdateResourceYAML string bytes string
  | OpRolloutRestart string string string
  | OpGetPodsLogs string string string

fun exec :: "cluster \<Rightarrow> operation \<Rightarrow> state \<Rightarrow> state" where
  "exec k (Resolve kind) s = snd (getCachedGVR k kind s)"
| "exec k (OpGetResource kind name namespace) s = snd (GetResource k kind name namespace s)"
| "exec k (OpDescribeResource kind name namespace) s =
     snd (DescribeResource k kind name namespace s)"
| "exec k (OpCreateOrUpdateResourceJSON namespace manifest kind) s =
     snd (CreateOrUpdateResourceJSON k namespace manifest kind s)"
| "exec k (OpCreateOrUpdateResourceYAML namespace manifest kind) s =
     snd (CreateOrUpdateResourceYAML k namespace manifest kind s)"
| "exec k (OpRolloutRestart kind name namespace) s =
     snd (RolloutRestart k kind name namespace s)"
| "exec k (OpGetPodsLogs namespace containerName podName) s =
     snd (GetPodsLogs k namespace containerName podName s)"

fun run :: "cluster \<Rightarrow> operation list \<Rightarrow> state \<Rightarrow> state" where
  "run k [] s = s"
| "run k (op # ops) s = run k ops (exec k op s)"

text \<open>A kind is absent from a discovery answer when no listed resource has it.\<close>

definition kind_absent :: "string \<Rightarrow> APIResourceList list \<Rightarrow> bool" where
  "kind_absent kind resourceLists =
     (\<forall>resourceList \<in> set resourceLists.
        \<forall>resource \<in> set (APIResources resourceList). Kind resource \<noteq> kind)"

text \<open>
  A discovery answer is usable when the call returned no error, or only the error of a
  partial group-discovery failure, which \<^const>\<open>getCachedGVR\<close> tolerates.
\<close>

definition usable :: "error option \<Rightarrow> bool" where
  "usable err = (err = None \<or> IsGroupDiscoveryFailedError err)"

text \<open>Kinds of events, to pick calls out of a trace.\<close>

fun is_namespace_call :: "event \<Rightarrow> bool" where
  "is_namespace_call (NamespacesGet n) = True"
| "is_namespace_call (NamespacesCreate n) = True"
| "is_namespace_call _ = False"

fun is_resource_write :: "event \<Rightarrow> bool" where
  "is_resource_write (ResourcePatch gvr ns n pt d) = True"
| "is_resource_write (ResourceCreate gvr ns obj) = True"
| "is_resource_write _ = False"

text \<open>
  The namespace check of \<^const>\<open>CreateOrUpdateResourceJSON\<close> on its own: the lookup, the
  two messages, and the creation after a not-found lookup. It returns the error the
  check ends with.
\<close>

definition namespace_check :: "cluster \<Rightarrow> string \<Rightarrow> state \<Rightarrow> error option \<times> state" where
  "namespace_check k namespace s1 =
     (let (err, s2) = Namespaces_Get k namespace s1;
          s3 = (if err = None
                then Printf (''Namespace '' @ namespace @ '' exists'' @ newline) s2
                else s2)
      in if IsNotFound err
         then Namespaces_Create k namespace
                (Printf (''Namespace '' @ namespace @
                   '' does not exist, creating one'' @ newline) s3)
         else (err, s3))"

text \<open>The events that a call added to the trace, between the state before and after.\<close>

definition new_events :: "state \<Rightarrow> state \<Rightarrow> event list" where
  "new_events s s' = drop (length (trace s)) (trace s')"

text \<open>
  A write of the dynamic client is addressed to a namespace when the request goes to
  that namespace and, for a create, the submitted document carries it as well.
\<close>

fun addressed_to :: "string \<Rightarrow> event \<Rightarrow> bool" where
  "addressed_to ns (ResourcePatch gvr n nm pt d) = (n = ns)"
| "addressed_to ns (ResourceCreate gvr n obj) =
     (n = ns \<and> NestedString obj [''metadata'', ''namespace''] = Found ns)"
| "addressed_to ns _ = False"

section \<open>An example cluster\<close>

text \<open>
  A small cluster to run the client on: discovery lists pods and deployments; no
  namespace and no object exists yet, so lookups and merge patches answer not-found and
  creations store what they are sent; a strategic patch answers with an object that has
  no pod template; the pod has two containers, of which only \<open>A\<close> can be streamed.
\<close>

definition example_lists :: "APIResourceList list" where
  "example_lists =
     [\<lparr>GroupVersion = ''v1'', APIResources = [\<lparr>Name = ''pods'', Kind = ''Pod''\<rparr>]\<rparr>,
      \<lparr>GroupVersion = ''apps/v1'',
       APIResources = [\<lparr>Name = ''deployments'', Kind = ''Deployment''\<rparr>]\<rparr>]"

definition example_manifest :: object where
  "example_manifest =
     [(''kind'', JString ''Pod''), (''metadata'', JObject [(''name'', JString ''my-pod'')])]"

definition example_json :: bytes where
  \<open>example_json = ''{"kind":"Pod","metadata":{"name":"my-pod"}}''\<close>

definition example_yaml :: bytes where
  "example_yaml = ''kind: Pod'' @ newline @ ''metadata:'' @ newline @ ''  name: my-pod'' @ newline"

definition not_found :: error where
  "not_found = StatusError StatusReasonNotFound ''not found''"

definition example_namespace_reply :: "event list \<Rightarrow> event \<Rightarrow> error option" where
  "example_namespace_reply h e = (case e of NamespacesGet n \<Rightarrow> Some not_found | _ \<Rightarrow> None)"

definition example_logs_reply ::
  "event list \<Rightarrow> event \<Rightarrow> error + (string \<times> error option)" where
  "example_logs_reply h e =
     (case e of
        PodsGetLogs ns p c n \<Rightarrow>
          if c = ''A'' then Inr (''hello'', None)
          else Inl (StatusError StatusReasonInvalid ''container is waiting to start'')
      | _ \<Rightarrow> Inl not_found)"

definition example_dynamic_reply :: "event list \<Rightarrow> event \<Rightarrow> error + object" where
  "example_dynamic_reply h e =
     (case e of
        ResourcePatch gvr ns n pt d \<Rightarrow>
          (case pt of
             MergePatchType \<Rightarrow> Inl not_found
           | StrategicMergePatchType \<Rightarrow> Inr [(''kind'', JString ''Pod'')])
      | ResourceCreate gvr ns obj \<Rightarrow> Inr obj
      | _ \<Rightarrow> Inl not_found)"

definition example_cluster :: cluster where
  "example_cluster =
     \<lparr>discovery_reply = (\<lambda>h. (example_lists, None)),
      namespace_reply = example_namespace_reply,
      pod_reply = (\<lambda>h e. Inr \<lparr>Spec = \<lparr>Containers =
        [\<lparr>ContainerName = ''A''\<rparr>, \<lparr>ContainerName = ''B''\<rparr>]\<rparr>\<rparr>),
      logs_reply = example_logs_reply,
      dynamic_reply = example_dynamic_reply,
      json_Unmarshal = (\<lambda>b. if b = example_json then Inr example_manifest
                            else Inl (ErrorString ''unexpected end of JSON input'')),
      YAMLToJSON = (\<lambda>b. if b = example_yaml then Inr example_json
                        else Inl (ErrorString ''yaml: did not find expected key'')),
      time_Now = (\<lambda>h. ''2024-01-01T00:00:00Z'')\<rparr>"

text \<open>
  A process with a server URL, a token, an inline CA certificate and the path of a CA
  file that cannot be read.
\<close>

definition example_getenv :: "string \<Rightarrow> string" where
  "example_getenv name =
     (if name = ''KUBERNETES_SERVER'' then ''https://10.0.0.1:6443''
      else if name = ''KUBERNETES_TOKEN'' then ''secret''
      else if name = ''KUBERNETES_CA_CERT'' then ''PEM''
      else if name = ''KUBERNETES_CA_CERT_PATH'' then ''/missing/ca.crt''
      else [])"

definition example_process :: "unit process" where
  "example_process =
     \<lparr>Getenv = example_getenv,
      ReadFile = (\<lambda>path. Inl (ErrorString ''no such file or directory'')),
      Stat = (\<lambda>path. Some (ErrorString ''no such file or directory'')),
      HomeDir = ''/root'',
      filepath_Join = (\<lambda>parts. concat (map (\<lambda>part. ''/'' @ part) parts)),
      clientcmd_Load = (\<lambda>b. Inl (ErrorString ''invalid configuration'')),
      ClientConfig = (\<lambda>c. Inl (ErrorString ''invalid configuration'')),
      InClusterConfig = Inl (ErrorString ''not in cluster''),
      BuildConfigFromFlags = (\<lambda>masterUrl path. Inl (ErrorString ''invalid configuration''))\<rparr>"

text \<open>The same process without the inline CA certificate.\<close>

definition example_process2 :: "unit process" where
  "example_process2 = example_process\<lparr>Getenv :=
     (\<lambda>name. if name = ''KUBERNETES_CA_CERT'' then [] else example_getenv name)\<rparr>"

section \<open>Concurrent resolution\<close>

text \<open>
  \<^const>\<open>getCachedGVR\<close> holds a lock only while it reads the cache and while it stores an
  entry; the discovery call in between runs unlocked, and the store does not look at the
  cache again. A call is therefore three atomic phases, and calls of concurrent workers
  interleave between them: \<open>Start\<close> is a call about to read the cache, \<open>Discovering\<close> a
  call that missed and released the shared lock, \<open>Storing\<close> a call whose scan found the
  coordinates it is about to store, and \<open>Done\<close> a call that has returned.
\<close>

datatype resolve_thread =
    Start string
  | Discovering string
  | Storing string GroupVersionResource
  | Done string "error + GroupVersionResource"

fun thread_step :: "cluster \<Rightarrow> resolve_thread \<Rightarrow> state \<Rightarrow> resolve_thread \<times> state" where
  "thread_step k (Start kind) s0 =
     (let s1 = log RLock s0 in
      case apiResourceCache s1 kind of
        Some gvr \<Rightarrow> (Done kind (Inr gvr), log RUnlock s1)
      | None \<Rightarrow> (Discovering kind, log RUnlock s1))"
| "thread_step k (Discovering kind) s2 =
     (let (resourceLists, err) = discovery_reply k (trace s2);
          s3 = log ServerPreferredResources s2
      in case (if IsGroupDiscoveryFailedError err then None else err) of
           Some e \<Rightarrow> (Done kind (Inl (Errorf ''failed to retrieve API resources'' e)), s3)
         | None \<Rightarrow>
             (case scan_lists kind resourceLists of
                Some gvr \<Rightarrow> (Storing kind gvr, s3)
              | None \<Rightarrow>
                  (Done kind (Inl (ErrorString (''resource type '' @ kind @ '' not found''))),
                   s3)))"
| "thread_step k (Storing kind gvr) s3 =
     (Done kind (Inr gvr),
      log Unlock ((log Lock s3)\<lparr>apiResourceCache := (apiResourceCache s3)(kind \<mapsto> gvr)\<rparr>))"
| "thread_step k (Done kind r) s = (Done kind r, s)"

fun thread_kind :: "resolve_thread \<Rightarrow> string" where
  "thread_kind (Start kind) = kind"
| "thread_kind (Discovering kind) = kind"
| "thread_kind (Storing kind gvr) = kind"
| "thread_kind (Done kind r) = kind"











text \<open>A manifest that has a kind and no name, and a cluster whose decoders read it.\<close>

definition nameless_manifest :: object where
  "nameless_manifest = [(''kind'', JString ''Pod'')]"

definition nameless_json :: bytes where
  \<open>nameless_json = ''{"kind":"Pod"}''\<close>

definition nameless_yaml :: bytes where
  "nameless_yaml = ''kind: Pod'' @ newline"

definition nameless_cluster :: cluster where
  "nameless_cluster = example_cluster
     \<lparr>json_Unmarshal := (\<lambda>b. if b = nameless_json then Inr nameless_manifest
                              else Inl (ErrorString ''unexpected end of JSON input'')),
      YAMLToJSON := (\<lambda>b. if b = nameless_yaml then Inr nameless_json
                          else Inl (ErrorString ''yaml: did not find expected key''))\<rparr>"

section \<open>Basic facts about the model\<close>

lemma log_simps [simp]:
  "apiResourceCache (log e s) = apiResourceCache s"
  "trace (log e s) = trace s @ [e]"
  "stdout (log e s) = stdout s"
  by (simp_all add: log_def)

lemma Printf_simps [simp]:
  "apiResourceCache (Printf l s) = apiResourceCache s"
  "trace (Printf l s) = trace s"
  "stdout (Printf l s) = stdout s @ [l]"
  by (simp_all add: Printf_def)

lemma call_snd [simp]:
  "snd (Namespaces_Get k n s) = log (NamespacesGet n) s"
  "snd (Namespaces_Create k n s) = log (NamespacesCreate n) s"
  "snd (Pods_Get k ns n s) = log (PodsGet ns n) s"
  "snd (GetLogs_Stream k ns n c t s) = log (PodsGetLogs ns n c t) s"
  "snd (Resource_Get k g ns n s) = log (ResourceGet g ns n) s"
  "snd (Resource_Patch k g ns n pt d s) = log (ResourcePatch g ns n pt d) s"
  "snd (Resource_Create k g ns obj s) = log (ResourceCreate g ns obj) s"
  by (simp_all add: Namespaces_Get_def Namespaces_Create_def Pods_Get_def GetLogs_Stream_def
      Resource_Get_def Resource_Patch_def Resource_Create_def)

lemma call_fst [simp]:
  "fst (Namespaces_Create k n s) = namespace_reply k (trace s) (NamespacesCreate n)"
  "fst (Resource_Get k g ns n s) = dynamic_reply k (trace s) (ResourceGet g ns n)"
  "fst (Resource_Patch k g ns n pt d s) = dynamic_reply k (trace s) (ResourcePatch g ns n pt d)"
  "fst (Resource_Create k g ns obj s) = dynamic_reply k (trace s) (ResourceCreate g ns obj)"
  by (simp_all add: Namespaces_Create_def Resource_Get_def Resource_Patch_def Resource_Create_def)




lemma logs_loop_cache:
  "apiResourceCache (snd (logs_loop k ns pod n cs acc s)) = apiResourceCache s"
  by (induction cs arbitrary: acc s) (simp_all add: split_beta)

text \<open>The patch-then-create tail shared by both variants, by the answers of the cluster.\<close>

lemma patch_create_outcome:
  "(let (result, s5) = Resource_Patch k gvr n nm MergePatchType body s;
        (result, s6) = (if IsNotFound (err_of result)
                        then Resource_Create k gvr n obj s5 else (result, s5))
    in case result of
         Inl e \<Rightarrow> (Inl (Errorf pfx e), s6)
       | Inr content \<Rightarrow> (Inr content, s6)) =
   (case dynamic_reply k (trace s) (ResourcePatch gvr n nm MergePatchType body) of
      Inr content \<Rightarrow> (Inr content, log (ResourcePatch gvr n nm MergePatchType body) s)
    | Inl e \<Rightarrow>
        if IsNotFound (Some e)
        then (case dynamic_reply k (trace s @ [ResourcePatch gvr n nm MergePatchType body])
                     (ResourceCreate gvr n obj) of
                Inl e2 \<Rightarrow> Inl (Errorf pfx e2)
              | Inr c \<Rightarrow> Inr c,
              log (ResourceCreate gvr n obj) (log (ResourcePatch gvr n nm MergePatchType body) s))
        else (Inl (Errorf pfx e), log (ResourcePatch gvr n nm MergePatchType body) s))"
  by (simp add: Resource_Patch_def Resource_Create_def split: sum.splits)

lemma YAML_unfold:
  assumes "YAMLToJSON k m = Inr jsonData" "json_Unmarshal k jsonData = Inr obj0"
    and "kd = (if kind = [] then GetKind obj0 else kind)" "kd \<noteq> []"
    and "getCachedGVR k kd s = (r, s1)"
    and "obj = (if ns \<noteq> [] then SetNamespace ns obj0 else obj0)"
  shows "CreateOrUpdateResourceYAML k ns m kind s =
     (case r of
        Inl err \<Rightarrow> (Inl err, s1)
      | Inr gvr \<Rightarrow>
          if GetName obj = []
          then (Inl (ErrorString ''resource name is required in YAML manifest''), s1)
          else
            (let (result, s2) =
                   Resource_Patch k gvr (GetNamespace obj) (GetName obj) MergePatchType jsonData s1;
                 (result, s3) =
                   (if IsNotFound (err_of result)
                    then Resource_Create k gvr (GetNamespace obj) obj s2
                    else (result, s2))
             in case result of
                  Inl e \<Rightarrow>
                    (Inl (Errorf ''failed to create or patch resource from YAML manifest'' e), s3)
                | Inr content \<Rightarrow> (Inr content, s3)))"
  unfolding CreateOrUpdateResourceYAML_def assms(1) assms(2) sum.case Let_def
    assms(3) [symmetric] assms(6) [symmetric]
  using assms(4,5) by (simp split: sum.splits)

lemma YAML_early:
  "YAMLToJSON k m = Inl e \<Longrightarrow>
   CreateOrUpdateResourceYAML k ns m kind s = (Inl (Errorf ''failed to parse YAML manifest'' e), s)"
  "YAMLToJSON k m = Inr jsonData \<Longrightarrow> json_Unmarshal k jsonData = Inl e \<Longrightarrow>
   CreateOrUpdateResourceYAML k ns m kind s =
     (Inl (Errorf ''failed to parse converted JSON from YAML manifest'' e), s)"
  "YAMLToJSON k m = Inr jsonData \<Longrightarrow> json_Unmarshal k jsonData = Inr obj0 \<Longrightarrow>
   (if kind = [] then GetKind obj0 else kind) = [] \<Longrightarrow>
   snd (CreateOrUpdateResourceYAML k ns m kind s) = s"
  unfolding CreateOrUpdateResourceYAML_def by (simp_all add: Let_def)

lemma YAML_state:
  "snd (CreateOrUpdateResourceYAML k ns m kind s) = s \<or>
   (\<exists>kd gvr n nm body obj.
      snd (CreateOrUpdateResourceYAML k ns m kind s) = snd (getCachedGVR k kd s) \<or>
      snd (CreateOrUpdateResourceYAML k ns m kind s) =
        log (ResourcePatch gvr n nm MergePatchType body) (snd (getCachedGVR k kd s)) \<or>
      snd (CreateOrUpdateResourceYAML k ns m kind s) =
        log (ResourceCreate gvr n obj)
          (log (ResourcePatch gvr n nm MergePatchType body) (snd (getCachedGVR k kd s))))"
proof (cases "YAMLToJSON k m")
  case (Inl e)
  then show ?thesis by (simp add: YAML_early)
next
  case (Inr jsonData)
  show ?thesis
  proof (cases "json_Unmarshal k jsonData")
    case (Inl e)
    with Inr show ?thesis by (simp add: YAML_early)
  next
    case obj0: (Inr obj0)
    define kd where "kd = (if kind = [] then GetKind obj0 else kind)"
    define obj where "obj = (if ns \<noteq> [] then SetNamespace ns obj0 else obj0)"
    show ?thesis
    proof (cases "kd = []")
      case True
      with Inr obj0 show ?thesis by (simp add: YAML_early kd_def)
    next
      case False
      obtain r s1 where r: "getCachedGVR k kd s = (r, s1)" by (cases "getCachedGVR k kd s")
      have s1: "s1 = snd (getCachedGVR k kd s)" using r by simp
      note u = YAML_unfold [OF Inr obj0 kd_def False r obj_def]
      show ?thesis
      proof (cases r)
        case (Inl e)
        with u s1 show ?thesis by auto
      next
        case gvr: (Inr gvr)
        show ?thesis
        proof (cases "GetName obj = []")
          case True
          with u gvr s1 show ?thesis by auto
        next
          case False
          with u gvr have "CreateOrUpdateResourceYAML k ns m kind s =
            (let (result, s2) =
                   Resource_Patch k gvr (GetNamespace obj) (GetName obj) MergePatchType jsonData s1;
                 (result, s3) =
                   (if IsNotFound (err_of result)
                    then Resource_Create k gvr (GetNamespace obj) obj s2
                    else (result, s2))
             in case result of
                  Inl e \<Rightarrow>
                    (Inl (Errorf ''failed to create or patch resource from YAML manifest'' e), s3)
                | Inr content \<Rightarrow> (Inr content, s3))" by simp
          then have "snd (CreateOrUpdateResourceYAML k ns m kind s) =
              log (ResourcePatch gvr (GetNamespace obj) (GetName obj) MergePatchType jsonData) s1 \<or>
            snd (CreateOrUpdateResourceYAML k ns m kind s) =
              log (ResourceCreate gvr (GetNamespace obj) obj)
               (log (ResourcePatch gvr (GetNamespace obj) (GetName obj) MergePatchType jsonData) s1)"
            unfolding patch_create_outcome by (simp split: sum.splits)
          then show ?thesis unfolding s1 by blast
        qed
      qed
    qed
  qed
qed

lemma namespace_check_state:
  "snd (namespace_check k ns s) = log (NamespacesGet ns) s \<or>
   (\<exists>l. snd (namespace_check k ns s) = Printf l (log (NamespacesGet ns) s)) \<or>
   (\<exists>l. snd (namespace_check k ns s) = log (NamespacesCreate ns) (Printf l (log (NamespacesGet ns) s)))"
  unfolding namespace_check_def by (auto simp: Let_def split_beta)

lemma JSON_unfold:
  assumes "json_Unmarshal k m = Inr obj0"
    and "getCachedGVR k kind s = (r, s1)"
  shows "CreateOrUpdateResourceJSON k ns m kind s =
     (case r of Inl err \<Rightarrow> (Inl err, s1)
      | Inr gvr \<Rightarrow>
     (case namespace_check k ns s1 of
        (Some e, s4) \<Rightarrow> (Inl (Errorf ''failed to retrieve namespace resource'' e), s4)
      | (None, s4) \<Rightarrow>
         if GetName (SetNamespace ns obj0) = [] then (Inl (ErrorString ''resource name is required''), s4)
         else
     (let (result, s5) =
                                 Resource_Patch k gvr (GetNamespace (SetNamespace ns obj0)) (GetName (SetNamespace ns obj0))
                                   MergePatchType m s4;
                               (result, s6) =
                                 (if IsNotFound (err_of result)
                                  then Resource_Create k gvr (GetNamespace (SetNamespace ns obj0)) (SetNamespace ns obj0) s5
                                  else (result, s5))
                           in case result of
                                Inl e \<Rightarrow>
                                  (Inl (Errorf ''failed to create or patch resource'' e), s6)
                              | Inr content \<Rightarrow> (Inr content, s6))))"
  unfolding CreateOrUpdateResourceJSON_def namespace_check_def assms sum.case prod.case Let_def
  by (simp add: split_beta split: sum.splits option.splits)


lemma JSON_early:
  "json_Unmarshal k m = Inl e \<Longrightarrow>
   CreateOrUpdateResourceJSON k ns m kind s =
     (Inl (Errorf ''failed to parse resource manifest JSON'' e), s)"
  unfolding CreateOrUpdateResourceJSON_def by simp

lemma JSON_state:
  "snd (CreateOrUpdateResourceJSON k ns m kind s) = s \<or>
   snd (CreateOrUpdateResourceJSON k ns m kind s) = snd (getCachedGVR k kind s) \<or>
   (\<exists>gvr n nm body obj.
      snd (CreateOrUpdateResourceJSON k ns m kind s) =
        snd (namespace_check k ns (snd (getCachedGVR k kind s))) \<or>
      snd (CreateOrUpdateResourceJSON k ns m kind s) =
        log (ResourcePatch gvr n nm MergePatchType body)
          (snd (namespace_check k ns (snd (getCachedGVR k kind s)))) \<or>
      snd (CreateOrUpdateResourceJSON k ns m kind s) =
        log (ResourceCreate gvr n obj)
          (log (ResourcePatch gvr n nm MergePatchType body)
            (snd (namespace_check k ns (snd (getCachedGVR k kind s))))))"
proof (cases "json_Unmarshal k m")
  case (Inl e)
  then show ?thesis by (simp add: JSON_early)
next
  case (Inr obj0)
  obtain r s1 where r: "getCachedGVR k kind s = (r, s1)" by (cases "getCachedGVR k kind s")
  obtain c s4 where c: "namespace_check k ns s1 = (c, s4)" by (cases "namespace_check k ns s1")
  note u = JSON_unfold [OF Inr r, of ns]
  show ?thesis
  proof (cases r)
    case (Inl e)
    with u r show ?thesis by simp
  next
    case gvr: (Inr gvr)
    show ?thesis
    proof (cases "c = None \<and> GetName (SetNamespace ns obj0) \<noteq> []")
      case False
      with u gvr r c show ?thesis by (auto split: option.splits)
    next
      case True
      with u gvr c have "snd (CreateOrUpdateResourceJSON k ns m kind s) =
          log (ResourcePatch gvr (GetNamespace (SetNamespace ns obj0))
                 (GetName (SetNamespace ns obj0)) MergePatchType m) s4 \<or>
        snd (CreateOrUpdateResourceJSON k ns m kind s) =
          log (ResourceCreate gvr (GetNamespace (SetNamespace ns obj0)) (SetNamespace ns obj0))
            (log (ResourcePatch gvr (GetNamespace (SetNamespace ns obj0))
                 (GetName (SetNamespace ns obj0)) MergePatchType m) s4)"
        unfolding patch_create_outcome by (simp split: sum.splits)
      moreover have "s4 = snd (namespace_check k ns (snd (getCachedGVR k kind s)))"
        using r c by simp
      ultimately show ?thesis by blast
    qed
  qed
qed

lemma namespace_check_cache:
  "apiResourceCache (snd (namespace_check k ns s)) = apiResourceCache s"
  using namespace_check_state [of k ns s] by auto

lemma exec_cache:
  "apiResourceCache (exec k op s) = apiResourceCache s \<or>
   (\<exists>kind. apiResourceCache (exec k op s) = apiResourceCache (snd (getCachedGVR k kind s)))"
proof (cases op)
  case (Resolve kind)
  then show ?thesis by auto
next
  case (OpGetResource kind name ns)
  have "apiResourceCache (snd (GetResource k kind name ns s)) =
        apiResourceCache (snd (getCachedGVR k kind s))"
    unfolding GetResource_def by (auto simp: Let_def split_beta split: sum.splits prod.splits)
  with OpGetResource show ?thesis by auto
next
  case (OpDescribeResource kind name ns)
  have "apiResourceCache (snd (DescribeResource k kind name ns s)) =
        apiResourceCache (snd (getCachedGVR k kind s))"
    unfolding DescribeResource_def by (auto simp: Let_def split_beta split: sum.splits prod.splits)
  with OpDescribeResource show ?thesis by auto
next
  case (OpCreateOrUpdateResourceJSON ns m kind)
  then show ?thesis
    using JSON_state [of k ns m kind s] by (auto simp: namespace_check_cache)
next
  case (OpCreateOrUpdateResourceYAML ns m kind)
  then show ?thesis
    using YAML_state [of k ns m kind s] by auto
next
  case (OpRolloutRestart kind name ns)
  have "apiResourceCache (snd (RolloutRestart k kind name ns s)) =
        apiResourceCache (snd (getCachedGVR k kind s))"
    unfolding RolloutRestart_def
    by (auto simp: Let_def split_beta split: sum.splits prod.splits nested.splits)
  with OpRolloutRestart show ?thesis by auto
next
  case (OpGetPodsLogs ns c pod)
  have "apiResourceCache (snd (GetPodsLogs k ns c pod s)) = apiResourceCache s"
    unfolding GetPodsLogs_def
    by (auto simp: Let_def split_beta logs_loop_cache split: sum.splits prod.splits option.splits)
  with OpGetPodsLogs show ?thesis by auto
qed


lemma scan_resources_absent:
  "\<forall>r \<in> set rs. Kind r \<noteq> kind \<Longrightarrow> scan_resources kind gv rs = None"
  by (induction rs) simp_all

lemma scan_lists_absent: "kind_absent kind rls \<Longrightarrow> scan_lists kind rls = None"
  by (induction rls) (auto simp: kind_absent_def scan_resources_absent split: sum.splits)

lemma getCachedGVR_miss:
  assumes "kind_absent kind (fst (discovery_reply k (trace s @ [RLock, RUnlock])))"
    and "apiResourceCache s kind = None"
  shows "getCachedGVR k kind s =
    (Inl (case (if IsGroupDiscoveryFailedError (snd (discovery_reply k (trace s @ [RLock, RUnlock])))
                then None else snd (discovery_reply k (trace s @ [RLock, RUnlock]))) of
            Some e \<Rightarrow> Errorf ''failed to retrieve API resources'' e
          | None \<Rightarrow> ErrorString (''resource type '' @ kind @ '' not found'')),
     s\<lparr>trace := trace s @ [RLock, RUnlock, ServerPreferredResources]\<rparr>)"
  using assms scan_lists_absent [OF assms(1)]
  unfolding getCachedGVR_def
  by (simp add: Let_def split_beta log_def split: option.splits)

lemma getCachedGVR_absent:
  assumes "\<forall>h. kind_absent kind (fst (discovery_reply k h))" "apiResourceCache s kind = None"
  shows "apiResourceCache (snd (getCachedGVR k kd s)) kind = None"
proof (cases "kd = kind")
  case True
  with assms getCachedGVR_miss [of kind k s] show ?thesis by simp
next
  case False
  with assms(2) show ?thesis
    unfolding getCachedGVR_def
    by (auto simp: Let_def split_beta split: option.splits if_splits)
qed

lemma run_absent:
  assumes "\<forall>h. kind_absent kind (fst (discovery_reply k h))"
  shows "apiResourceCache s kind = None \<Longrightarrow> apiResourceCache (run k ops s) kind = None"
proof (induction ops arbitrary: s)
  case Nil
  then show ?case by simp
next
  case (Cons op ops)
  have "apiResourceCache (exec k op s) kind = None"
    using exec_cache [of k op s] getCachedGVR_absent [OF assms Cons.prems] Cons.prems by auto
  then show ?case using Cons.IH by simp
qed


lemma new_events_append: "trace s' = trace s @ es \<Longrightarrow> new_events s s' = es"
  by (simp add: new_events_def)

lemma new_events_simps [simp]:
  "new_events s s = []"
  "new_events s (log e s) = [e]"
  "new_events s (log e' (log e s)) = [e, e']"
  "new_events s (s\<lparr>trace := trace s @ es\<rparr>) = es"
  by (simp_all add: new_events_def)

lemma namespace_check_eq:
  "namespace_check k ns s1 =
     (if fst (Namespaces_Get k ns s1) = None
      then (None, Printf (''Namespace '' @ ns @ '' exists'' @ newline) (log (NamespacesGet ns) s1))
      else if IsNotFound (fst (Namespaces_Get k ns s1))
      then (namespace_reply k (trace s1 @ [NamespacesGet ns]) (NamespacesCreate ns),
            log (NamespacesCreate ns)
              (Printf (''Namespace '' @ ns @ '' does not exist, creating one'' @ newline)
                 (log (NamespacesGet ns) s1)))
      else (fst (Namespaces_Get k ns s1), log (NamespacesGet ns) s1))"
  unfolding namespace_check_def
  by (auto simp: Let_def split_beta Namespaces_Create_def)

lemma namespace_check_trace:
  "namespace_check k ns s1 = (c, s4) \<Longrightarrow>
   trace s4 = trace s1 @ [NamespacesGet ns] \<or>
   trace s4 = trace s1 @ [NamespacesGet ns, NamespacesCreate ns]"
  unfolding namespace_check_eq by (auto split: if_splits)

lemma nested_string_2:
  "getNestedString obj [a, b] =
     (case map_of obj a of
        Some (JObject x) \<Rightarrow> (case map_of x b of Some (JString s) \<Rightarrow> s | _ \<Rightarrow> [])
      | _ \<Rightarrow> [])"
  by (simp add: getNestedString_def NestedString_def split: option.splits json.splits)

lemma nested_found_2:
  "(NestedString obj [a, b] = Found v) =
     (\<exists>x. map_of obj a = Some (JObject x) \<and> map_of x b = Some (JString v))"
  by (auto simp add: NestedString_def split: option.splits json.splits)

lemma SetNamespace_metadata:
  "map_of (SetNamespace ns obj) ''metadata'' =
     (if ns = [] then
        (case map_of obj ''metadata'' of
           Some (JObject x) \<Rightarrow> Some (JObject (AList.delete ''namespace'' x))
         | other \<Rightarrow> other)
      else
        (case map_of obj ''metadata'' of
           Some (JObject x) \<Rightarrow> Some (JObject (AList.update ''namespace'' (JString ns) x))
         | Some other \<Rightarrow> Some other
         | None \<Rightarrow> Some (JObject [(''namespace'', JString ns)])))"
  by (simp add: SetNamespace_def update_conv' split: option.splits json.splits)

lemma SetNamespace_GetNamespace:
  "GetName (SetNamespace ns obj0) \<noteq> [] \<Longrightarrow> GetNamespace (SetNamespace ns obj0) = ns"
  unfolding GetName_def GetNamespace_def nested_string_2 SetNamespace_metadata
  by (auto simp: update_conv' delete_conv' split: option.splits json.splits if_splits)

lemma SetNamespace_Found:
  "ns \<noteq> [] \<Longrightarrow> GetName (SetNamespace ns obj0) \<noteq> [] \<Longrightarrow>
   NestedString (SetNamespace ns obj0) [''metadata'', ''namespace''] = Found ns"
  unfolding GetName_def nested_string_2 nested_found_2 SetNamespace_metadata
  by (auto simp: update_conv' split: option.splits json.splits if_splits)

text \<open>The two variants once the manifest is parsed, the kind resolved and the name there.\<close>

lemma JSON_protocol:
  assumes "json_Unmarshal k m = Inr obj0" "getCachedGVR k kind s = (Inr gvr, s1)"
    and "namespace_check k ns s1 = (None, s4)"
    and "obj = SetNamespace ns obj0" "GetName obj \<noteq> []"
    and "P = ResourcePatch gvr (GetNamespace obj) (GetName obj) MergePatchType m"
    and "C = ResourceCreate gvr (GetNamespace obj) obj"
  shows "CreateOrUpdateResourceJSON k ns m kind s =
     (case dynamic_reply k (trace s4) P of
        Inr content \<Rightarrow> (Inr content, log P s4)
      | Inl e \<Rightarrow>
          if IsNotFound (Some e)
          then (case dynamic_reply k (trace s4 @ [P]) C of
                  Inl e2 \<Rightarrow> Inl (Errorf ''failed to create or patch resource'' e2)
                | Inr c \<Rightarrow> Inr c,
                log C (log P s4))
          else (Inl (Errorf ''failed to create or patch resource'' e), log P s4))"
  unfolding JSON_unfold [OF assms(1,2)] assms(6,7) assms(4) patch_create_outcome
  using assms(3,5) unfolding assms(4)
  by simp

lemma YAML_protocol:
  assumes "YAMLToJSON k m = Inr jsonData" "json_Unmarshal k jsonData = Inr obj0"
    and "kd = (if kind = [] then GetKind obj0 else kind)" "kd \<noteq> []"
    and "getCachedGVR k kd s = (Inr gvr, s1)"
    and "obj = (if ns \<noteq> [] then SetNamespace ns obj0 else obj0)" "GetName obj \<noteq> []"
    and "P = ResourcePatch gvr (GetNamespace obj) (GetName obj) MergePatchType jsonData"
    and "C = ResourceCreate gvr (GetNamespace obj) obj"
  shows "CreateOrUpdateResourceYAML k ns m kind s =
     (case dynamic_reply k (trace s1) P of
        Inr content \<Rightarrow> (Inr content, log P s1)
      | Inl e \<Rightarrow>
          if IsNotFound (Some e)
          then (case dynamic_reply k (trace s1 @ [P]) C of
                  Inl e2 \<Rightarrow> Inl (Errorf ''failed to create or patch resource from YAML manifest'' e2)
                | Inr c \<Rightarrow> Inr c,
                log C (log P s1))
          else (Inl (Errorf ''failed to create or patch resource from YAML manifest'' e), log P s1))"
  unfolding YAML_unfold [OF assms(1,2,3,4,5,6)] assms(8,9) patch_create_outcome
  using assms(7)
  by simp

lemma getCachedGVR_new_events:
  "getCachedGVR k kind s = (r, s1) \<Longrightarrow>
   \<exists>es. trace s1 = trace s @ es \<and> (\<forall>e \<in> set es. \<not> is_resource_write e \<and> \<not> is_namespace_call e)"
  unfolding getCachedGVR_def
  by (auto simp: Let_def split_beta split: option.splits)

text \<open>All writes that the JSON variant makes, for any input.\<close>

lemma JSON_writes:
  "\<exists>es ws. trace (snd (CreateOrUpdateResourceJSON k ns m kind s)) = trace s @ es @ ws \<and>
     (\<forall>e \<in> set es. \<not> is_resource_write e) \<and>
     (ws = [] \<or>
      (\<exists>obj0 gvr. json_Unmarshal k m = Inr obj0 \<and> GetName (SetNamespace ns obj0) \<noteq> [] \<and>
         (ws = [ResourcePatch gvr (GetNamespace (SetNamespace ns obj0))
                  (GetName (SetNamespace ns obj0)) MergePatchType m] \<or>
          ws = [ResourcePatch gvr (GetNamespace (SetNamespace ns obj0))
                  (GetName (SetNamespace ns obj0)) MergePatchType m,
                ResourceCreate gvr (GetNamespace (SetNamespace ns obj0))
                  (SetNamespace ns obj0)])))"
proof (cases "json_Unmarshal k m")
  case (Inl e)
  then show ?thesis by (simp add: JSON_early)
next
  case (Inr obj0)
  obtain r s1 where r: "getCachedGVR k kind s = (r, s1)" by (cases "getCachedGVR k kind s")
  obtain c s4 where c: "namespace_check k ns s1 = (c, s4)" by (cases "namespace_check k ns s1")
  from getCachedGVR_new_events [OF r] obtain es where
    es: "trace s1 = trace s @ es" "\<forall>e \<in> set es. \<not> is_resource_write e" by blast
  from namespace_check_trace [OF c] obtain fs where
    fs: "trace s4 = trace s1 @ fs" "\<forall>e \<in> set fs. \<not> is_resource_write e" by auto
  note u = JSON_unfold [OF Inr r, of ns]
  show ?thesis
  proof (cases r)
    case (Inl e)
    with u es show ?thesis by auto
  next
    case gvr: (Inr gvr)
    show ?thesis
    proof (cases "c = None \<and> GetName (SetNamespace ns obj0) \<noteq> []")
      case False
      with u gvr c have "snd (CreateOrUpdateResourceJSON k ns m kind s) = s4"
        by (auto split: option.splits)
      with es fs have "trace (snd (CreateOrUpdateResourceJSON k ns m kind s)) = trace s @ (es @ fs) @ []"
        by simp
      moreover have "\<forall>e \<in> set (es @ fs). \<not> is_resource_write e" using es fs by auto
      ultimately show ?thesis by blast
    next
      case True
      let ?obj = "SetNamespace ns obj0"
      let ?P = "ResourcePatch gvr (GetNamespace ?obj) (GetName ?obj) MergePatchType m"
      let ?C = "ResourceCreate gvr (GetNamespace ?obj) ?obj"
      from True c have c': "namespace_check k ns s1 = (None, s4)" by simp
      from True have n: "GetName ?obj \<noteq> []" by simp
      have "snd (CreateOrUpdateResourceJSON k ns m kind s) = log ?P s4 \<or>
            snd (CreateOrUpdateResourceJSON k ns m kind s) = log ?C (log ?P s4)"
        unfolding JSON_protocol [OF Inr r [unfolded gvr] c' refl n refl refl]
        by (simp split: sum.splits)
      then obtain ws where ws: "trace (snd (CreateOrUpdateResourceJSON k ns m kind s)) = trace s4 @ ws"
        "ws = [?P] \<or> ws = [?P, ?C]"
        by (elim disjE) (simp_all add: exI [of _ "[?P]"] exI [of _ "[?P, ?C]"])
      from ws(1) es fs have "trace (snd (CreateOrUpdateResourceJSON k ns m kind s)) =
          trace s @ (es @ fs) @ ws" by simp
      moreover have "\<forall>e \<in> set (es @ fs). \<not> is_resource_write e" using es fs by auto
      ultimately show ?thesis using ws(2) Inr n by blast
    qed
  qed
qed





text \<open>All calls that the YAML variant makes, for any input.\<close>

lemma YAML_writes:
  "\<exists>es ws. trace (snd (CreateOrUpdateResourceYAML k ns m kind s)) = trace s @ es @ ws \<and>
     (\<forall>e \<in> set es. \<not> is_resource_write e \<and> \<not> is_namespace_call e) \<and>
     (ws = [] \<or>
      (\<exists>jsonData obj0 gvr obj.
         YAMLToJSON k m = Inr jsonData \<and> json_Unmarshal k jsonData = Inr obj0 \<and>
         obj = (if ns \<noteq> [] then SetNamespace ns obj0 else obj0) \<and> GetName obj \<noteq> [] \<and>
         (ws = [ResourcePatch gvr (GetNamespace obj) (GetName obj) MergePatchType jsonData] \<or>
          ws = [ResourcePatch gvr (GetNamespace obj) (GetName obj) MergePatchType jsonData,
                ResourceCreate gvr (GetNamespace obj) obj])))"
proof (cases "YAMLToJSON k m")
  case (Inl e)
  then show ?thesis by (simp add: YAML_early)
next
  case (Inr jsonData)
  show ?thesis
  proof (cases "json_Unmarshal k jsonData")
    case (Inl e)
    with Inr show ?thesis by (simp add: YAML_early)
  next
    case obj0: (Inr obj0)
    define kd where "kd = (if kind = [] then GetKind obj0 else kind)"
    define obj where "obj = (if ns \<noteq> [] then SetNamespace ns obj0 else obj0)"
    show ?thesis
    proof (cases "kd = []")
      case True
      with Inr obj0 show ?thesis by (simp add: YAML_early kd_def)
    next
      case False
      obtain r s1 where r: "getCachedGVR k kd s = (r, s1)" by (cases "getCachedGVR k kd s")
      from getCachedGVR_new_events [OF r] obtain es where
        es: "trace s1 = trace s @ es"
          "\<forall>e \<in> set es. \<not> is_resource_write e \<and> \<not> is_namespace_call e" by blast
      note u = YAML_unfold [OF Inr obj0 kd_def False r obj_def]
      show ?thesis
      proof (cases "\<exists>gvr. r = Inr gvr \<and> GetName obj \<noteq> []")
        case False
        with u have "snd (CreateOrUpdateResourceYAML k ns m kind s) = s1"
          by (auto split: sum.splits)
        with es have "trace (snd (CreateOrUpdateResourceYAML k ns m kind s)) = trace s @ es @ []"
          by simp
        with es(2) show ?thesis by blast
      next
        case True
        then obtain gvr where gvr: "r = Inr gvr" and n: "GetName obj \<noteq> []" by blast
        let ?P = "ResourcePatch gvr (GetNamespace obj) (GetName obj) MergePatchType jsonData"
        let ?C = "ResourceCreate gvr (GetNamespace obj) obj"
        have "snd (CreateOrUpdateResourceYAML k ns m kind s) = log ?P s1 \<or>
              snd (CreateOrUpdateResourceYAML k ns m kind s) = log ?C (log ?P s1)"
          unfolding YAML_protocol [OF Inr obj0 kd_def False r [unfolded gvr] obj_def n refl refl]
          by (simp split: sum.splits)
        then obtain ws where
          ws: "trace (snd (CreateOrUpdateResourceYAML k ns m kind s)) = trace s1 @ ws"
            "ws = [?P] \<or> ws = [?P, ?C]"
          by (elim disjE) (simp_all add: exI [of _ "[?P]"] exI [of _ "[?P, ?C]"])
        from ws(1) es have "trace (snd (CreateOrUpdateResourceYAML k ns m kind s)) =
            trace s @ es @ ws" by simp
        with es(2) ws(2) Inr obj0 n obj_def show ?thesis by blast
      qed
    qed
  qed
qed

lemma addressed_writes:
  assumes "ns \<noteq> []" "GetName (SetNamespace ns obj0) \<noteq> []"
  shows "addressed_to ns (ResourcePatch gvr (GetNamespace (SetNamespace ns obj0)) nm pt d)"
    and "addressed_to ns (ResourceCreate gvr (GetNamespace (SetNamespace ns obj0))
           (SetNamespace ns obj0))"
  using SetNamespace_GetNamespace [OF assms(2)] SetNamespace_Found [OF assms] by simp_all

lemma JSON_check_failed:
  assumes "json_Unmarshal k m = Inr obj0" "getCachedGVR k kind s = (Inr gvr, s1)"
    and "namespace_check k ns s1 = (Some e, s4)"
  shows "CreateOrUpdateResourceJSON k ns m kind s =
           (Inl (Errorf ''failed to retrieve namespace resource'' e), s4)"
  unfolding JSON_unfold [OF assms(1,2)] using assms(3) by simp

lemma JSON_tail:
  assumes "json_Unmarshal k m = Inr obj0" "getCachedGVR k kind s = (Inr gvr, s1)"
    and "namespace_check k ns s1 = (None, s4)"
  shows "\<exists>ws. trace (snd (CreateOrUpdateResourceJSON k ns m kind s)) = trace s4 @ ws \<and>
           (\<forall>e \<in> set ws. \<not> is_namespace_call e) \<and>
           (GetName (SetNamespace ns obj0) \<noteq> [] \<longrightarrow>
              prefix [ResourcePatch gvr (GetNamespace (SetNamespace ns obj0))
                        (GetName (SetNamespace ns obj0)) MergePatchType m] ws)"
proof (cases "GetName (SetNamespace ns obj0) = []")
  case True
  then have "snd (CreateOrUpdateResourceJSON k ns m kind s) = s4"
    unfolding JSON_unfold [OF assms(1,2)] using assms(3) by simp
  with True show ?thesis by simp
next
  case False
  let ?obj = "SetNamespace ns obj0"
  let ?P = "ResourcePatch gvr (GetNamespace ?obj) (GetName ?obj) MergePatchType m"
  let ?C = "ResourceCreate gvr (GetNamespace ?obj) ?obj"
  have "snd (CreateOrUpdateResourceJSON k ns m kind s) = log ?P s4 \<or>
        snd (CreateOrUpdateResourceJSON k ns m kind s) = log ?C (log ?P s4)"
    unfolding JSON_protocol [OF assms refl False refl refl]
    by (simp split: sum.splits)
  then have "trace (snd (CreateOrUpdateResourceJSON k ns m kind s)) = trace s4 @ [?P] \<or>
             trace (snd (CreateOrUpdateResourceJSON k ns m kind s)) = trace s4 @ [?P, ?C]"
    by auto
  then show ?thesis
  proof
    assume "trace (snd (CreateOrUpdateResourceJSON k ns m kind s)) = trace s4 @ [?P]"
    then show ?thesis by (intro exI [of _ "[?P]"]) simp
  next
    assume "trace (snd (CreateOrUpdateResourceJSON k ns m kind s)) = trace s4 @ [?P, ?C]"
    then show ?thesis by (intro exI [of _ "[?P, ?C]"]) simp
  qed
qed


lemma write_not_namespace: "is_resource_write e \<Longrightarrow> \<not> is_namespace_call e"
  by (cases e) simp_all

lemma YAML_no_namespace_call:
  "filter is_namespace_call
     (new_events s (snd (CreateOrUpdateResourceYAML k ns m kind s))) = []"
proof -
  from YAML_writes [of k ns m kind s] obtain es ws where
    t: "trace (snd (CreateOrUpdateResourceYAML k ns m kind s)) = trace s @ es @ ws"
    and es: "\<forall>e \<in> set es. \<not> is_resource_write e \<and> \<not> is_namespace_call e"
    and ws: "ws = [] \<or>
      (\<exists>jsonData obj0 gvr obj.
         YAMLToJSON k m = Inr jsonData \<and> json_Unmarshal k jsonData = Inr obj0 \<and>
         obj = (if ns \<noteq> [] then SetNamespace ns obj0 else obj0) \<and> GetName obj \<noteq> [] \<and>
         (ws = [ResourcePatch gvr (GetNamespace obj) (GetName obj) MergePatchType jsonData] \<or>
          ws = [ResourcePatch gvr (GetNamespace obj) (GetName obj) MergePatchType jsonData,
                ResourceCreate gvr (GetNamespace obj) obj]))"
    by blast
  from ws have "\<forall>e \<in> set ws. \<not> is_namespace_call e"
    by auto
  with es new_events_append [OF t] show ?thesis
    by (simp add: filter_empty_conv)
qed

lemma namespace_check_found:
  "fst (Namespaces_Get k ns s1) = None \<Longrightarrow>
   namespace_check k ns s1 =
     (None, Printf (''Namespace '' @ ns @ '' exists'' @ newline) (log (NamespacesGet ns) s1))"
  by (simp add: namespace_check_eq)

lemma namespace_check_notfound:
  "IsNotFound (fst (Namespaces_Get k ns s1)) \<Longrightarrow>
   namespace_check k ns s1 =
     (namespace_reply k (trace s1 @ [NamespacesGet ns]) (NamespacesCreate ns),
      log (NamespacesCreate ns)
        (Printf (''Namespace '' @ ns @ '' does not exist, creating one'' @ newline)
           (log (NamespacesGet ns) s1)))"
  by (cases "fst (Namespaces_Get k ns s1)") (simp_all add: namespace_check_eq)

lemma namespace_check_error:
  "fst (Namespaces_Get k ns s1) = Some e \<Longrightarrow> \<not> IsNotFound (Some e) \<Longrightarrow>
   namespace_check k ns s1 = (Some e, log (NamespacesGet ns) s1)"
  by (simp add: namespace_check_eq)

lemma Namespaces_Get_empty:
  "fst (Namespaces_Get k [] s1) = Some (ErrorString ''resource name may not be empty'')"
  by (simp add: Namespaces_Get_def Request_Name_def)

lemma JSON_empty_reached:
  assumes "json_Unmarshal k m = Inr obj0" "getCachedGVR k kind s = (Inr gvr, s1)"
  shows "CreateOrUpdateResourceJSON k [] m kind s =
           (Inl (Errorf ''failed to retrieve namespace resource''
                   (ErrorString ''resource name may not be empty'')),
            s1\<lparr>trace := trace s1 @ [NamespacesGet []]\<rparr>)"
proof -
  have "namespace_check k [] s1 =
          (Some (ErrorString ''resource name may not be empty''), log (NamespacesGet []) s1)"
    by (rule namespace_check_error [OF Namespaces_Get_empty]) simp
  from JSON_check_failed [OF assms this] show ?thesis by (simp add: log_def)
qed

lemma JSON_empty_all:
  "(\<exists>e. fst (CreateOrUpdateResourceJSON k [] m kind s) = Inl e) \<and>
   filter is_resource_write (new_events s (snd (CreateOrUpdateResourceJSON k [] m kind s))) = []"
proof (cases "json_Unmarshal k m")
  case (Inl e)
  then show ?thesis by (simp add: JSON_early)
next
  case (Inr obj0)
  obtain r s1 where r: "getCachedGVR k kind s = (r, s1)" by (cases "getCachedGVR k kind s")
  from getCachedGVR_new_events [OF r] obtain es where
    es: "trace s1 = trace s @ es"
      "\<forall>e \<in> set es. \<not> is_resource_write e \<and> \<not> is_namespace_call e" by blast
  show ?thesis
  proof (cases r)
    case (Inl e)
    have "CreateOrUpdateResourceJSON k [] m kind s = (Inl e, s1)"
      unfolding JSON_unfold [OF Inr r] Inl by simp
    with es show ?thesis by (simp add: new_events_append filter_empty_conv)
  next
    case gvr: (Inr gvr)
    note eq = JSON_empty_reached [OF Inr r [unfolded gvr]]
    have "trace (snd (CreateOrUpdateResourceJSON k [] m kind s)) = trace s @ (es @ [NamespacesGet []])"
      unfolding eq using es(1) by simp
    from new_events_append [OF this] es(2) show ?thesis
      unfolding eq by (simp add: filter_empty_conv)
  qed
qed

lemma filter_writes:
  "\<forall>e \<in> set es. \<not> is_resource_write e \<Longrightarrow> \<forall>e \<in> set ws. is_resource_write e \<Longrightarrow>
   filter is_resource_write (es @ ws) = ws"
  by (simp add: filter_empty_conv filter_id_conv)

lemma JSON_write_list:
  "\<exists>gvr obj. filter is_resource_write
       (new_events s (snd (CreateOrUpdateResourceJSON k ns m kind s))) \<in>
     {[],
      [ResourcePatch gvr (GetNamespace obj) (GetName obj) MergePatchType m],
      [ResourcePatch gvr (GetNamespace obj) (GetName obj) MergePatchType m,
       ResourceCreate gvr (GetNamespace obj) obj]}"
proof -
  from JSON_writes [of k ns m kind s] obtain es ws where
    t: "trace (snd (CreateOrUpdateResourceJSON k ns m kind s)) = trace s @ es @ ws"
    and es: "\<forall>e \<in> set es. \<not> is_resource_write e"
    and ws: "ws = [] \<or>
      (\<exists>obj0 gvr. json_Unmarshal k m = Inr obj0 \<and> GetName (SetNamespace ns obj0) \<noteq> [] \<and>
         (ws = [ResourcePatch gvr (GetNamespace (SetNamespace ns obj0))
                  (GetName (SetNamespace ns obj0)) MergePatchType m] \<or>
          ws = [ResourcePatch gvr (GetNamespace (SetNamespace ns obj0))
                  (GetName (SetNamespace ns obj0)) MergePatchType m,
                ResourceCreate gvr (GetNamespace (SetNamespace ns obj0))
                  (SetNamespace ns obj0)]))"
    by blast
  from ws have "\<forall>e \<in> set ws. is_resource_write e" by auto
  from filter_writes [OF es this] new_events_append [OF t]
  have "filter is_resource_write
          (new_events s (snd (CreateOrUpdateResourceJSON k ns m kind s))) = ws" by simp
  with ws show ?thesis by auto
qed

lemma YAML_write_list:
  "\<exists>gvr obj body. filter is_resource_write
       (new_events s (snd (CreateOrUpdateResourceYAML k ns m kind s))) \<in>
     {[],
      [ResourcePatch gvr (GetNamespace obj) (GetName obj) MergePatchType body],
      [ResourcePatch gvr (GetNamespace obj) (GetName obj) MergePatchType body,
       ResourceCreate gvr (GetNamespace obj) obj]}"
proof -
  from YAML_writes [of k ns m kind s] obtain es ws where
    t: "trace (snd (CreateOrUpdateResourceYAML k ns m kind s)) = trace s @ es @ ws"
    and es: "\<forall>e \<in> set es. \<not> is_resource_write e \<and> \<not> is_namespace_call e"
    and ws: "ws = [] \<or>
      (\<exists>jsonData obj0 gvr obj.
         YAMLToJSON k m = Inr jsonData \<and> json_Unmarshal k jsonData = Inr obj0 \<and>
         obj = (if ns \<noteq> [] then SetNamespace ns obj0 else obj0) \<and> GetName obj \<noteq> [] \<and>
         (ws = [ResourcePatch gvr (GetNamespace obj) (GetName obj) MergePatchType jsonData] \<or>
          ws = [ResourcePatch gvr (GetNamespace obj) (GetName obj) MergePatchType jsonData,
                ResourceCreate gvr (GetNamespace obj) obj]))"
    by blast
  from ws have "\<forall>e \<in> set ws. is_resource_write e" by auto
  moreover from es have "\<forall>e \<in> set es. \<not> is_resource_write e" by blast
  ultimately have "filter is_resource_write
          (new_events s (snd (CreateOrUpdateResourceYAML k ns m kind s))) = ws"
    using filter_writes new_events_append [OF t] by simp
  with ws show ?thesis by auto
qed


lemma thread_step_kind [simp]: "thread_kind (fst (thread_step k t s)) = thread_kind t"
  by (cases t) (simp_all add: Let_def split_beta split: option.splits)








lemma JSON_no_patch:
  assumes "json_Unmarshal k m = Inr obj0" "getCachedGVR k kind s = (Inr gvr, s1)"
    and "namespace_check k ns s1 = (c, s4)"
    and "c \<noteq> None \<or> GetName (SetNamespace ns obj0) = []"
  shows "(\<exists>e. CreateOrUpdateResourceJSON k ns m kind s = (Inl e, s4)) \<and>
         filter is_resource_write (new_events s s4) = []"
proof -
  from getCachedGVR_new_events [OF assms(2)] obtain es where
    es: "trace s1 = trace s @ es"
      "\<forall>e \<in> set es. \<not> is_resource_write e \<and> \<not> is_namespace_call e" by blast
  from namespace_check_trace [OF assms(3)] obtain fs where
    fs: "trace s4 = trace s1 @ fs" "\<forall>e \<in> set fs. \<not> is_resource_write e" by auto
  from es fs have "trace s4 = trace s @ (es @ fs)" by simp
  from new_events_append [OF this] es(2) fs(2)
  have "filter is_resource_write (new_events s s4) = []"
    by (simp add: filter_empty_conv)
  moreover have "\<exists>e. CreateOrUpdateResourceJSON k ns m kind s = (Inl e, s4)"
    unfolding JSON_unfold [OF assms(1,2)] using assms(3,4) by (cases c) auto
  ultimately show ?thesis by blast
qed

lemma YAML_no_patch:
  assumes "YAMLToJSON k m = Inr jsonData" "json_Unmarshal k jsonData = Inr obj0"
    and "kd = (if kind = [] then GetKind obj0 else kind)" "kd \<noteq> []"
    and "getCachedGVR k kd s = (Inr gvr, s1)"
    and "obj = (if ns \<noteq> [] then SetNamespace ns obj0 else obj0)" "GetName obj = []"
  shows "CreateOrUpdateResourceYAML k ns m kind s =
           (Inl (ErrorString ''resource name is required in YAML manifest''), s1)"
  unfolding YAML_unfold [OF assms(1-6)] using assms(7) by simp

lemma protocol_success:
  assumes eq: "R =
     (case dynamic_reply k (trace s4) P of
        Inr content \<Rightarrow> (Inr content, log P s4)
      | Inl e \<Rightarrow>
          if IsNotFound (Some e)
          then (case dynamic_reply k (trace s4 @ [P]) C of
                  Inl e2 \<Rightarrow> Inl (Errorf pfx e2)
                | Inr c \<Rightarrow> Inr c,
                log C (log P s4))
          else (Inl (Errorf pfx e), log P s4))"
    and ok: "fst R = Inr content"
  shows "trace (snd R) = trace s4 @ [P] \<and> dynamic_reply k (trace s4) P = Inr content \<or>
         trace (snd R) = trace s4 @ [P, C] \<and> IsNotFound (err_of (dynamic_reply k (trace s4) P)) \<and>
           dynamic_reply k (trace s4 @ [P]) C = Inr content"
proof (cases "dynamic_reply k (trace s4) P")
  case (Inr c)
  with ok show ?thesis unfolding eq by simp
next
  case (Inl e)
  show ?thesis
  proof (cases "IsNotFound (Some e)")
    case False
    with Inl ok show ?thesis unfolding eq by simp
  next
    case True
    with Inl ok show ?thesis unfolding eq
      by (cases "dynamic_reply k (trace s4 @ [P]) C") simp_all
  qed
qed

lemma JSON_success:
  assumes ok: "fst (CreateOrUpdateResourceJSON k ns m kind s) = Inr content"
  shows "\<exists>obj0 gvr h. json_Unmarshal k m = Inr obj0 \<and> prefix (trace s) h \<and>
           GetName (SetNamespace ns obj0) \<noteq> [] \<and>
           (trace (snd (CreateOrUpdateResourceJSON k ns m kind s)) =
              h @ [ResourcePatch gvr ns (GetName (SetNamespace ns obj0)) MergePatchType m] \<and>
            dynamic_reply k h
              (ResourcePatch gvr ns (GetName (SetNamespace ns obj0)) MergePatchType m) =
              Inr content \<or>
            trace (snd (CreateOrUpdateResourceJSON k ns m kind s)) =
              h @ [ResourcePatch gvr ns (GetName (SetNamespace ns obj0)) MergePatchType m,
                   ResourceCreate gvr ns (SetNamespace ns obj0)] \<and>
            IsNotFound (err_of (dynamic_reply k h
              (ResourcePatch gvr ns (GetName (SetNamespace ns obj0)) MergePatchType m))) \<and>
            dynamic_reply k
              (h @ [ResourcePatch gvr ns (GetName (SetNamespace ns obj0)) MergePatchType m])
              (ResourceCreate gvr ns (SetNamespace ns obj0)) = Inr content)"
proof (cases "json_Unmarshal k m")
  case (Inl e)
  with ok show ?thesis by (simp add: JSON_early)
next
  case (Inr obj0)
  obtain r s1 where r: "getCachedGVR k kind s = (r, s1)" by (cases "getCachedGVR k kind s")
  obtain c s4 where c: "namespace_check k ns s1 = (c, s4)" by (cases "namespace_check k ns s1")
  from getCachedGVR_new_events [OF r] obtain es where es: "trace s1 = trace s @ es" by blast
  from namespace_check_trace [OF c] obtain fs where fs: "trace s4 = trace s1 @ fs" by auto
  have pre: "prefix (trace s) (trace s4)" using es fs by simp
  from ok obtain gvr where gvr: "r = Inr gvr"
    unfolding JSON_unfold [OF Inr r] by (cases r) simp_all
  from ok have cn: "c = None"
    unfolding JSON_unfold [OF Inr r] gvr using c by (cases c) simp_all
  from ok have n: "GetName (SetNamespace ns obj0) \<noteq> []"
    unfolding JSON_unfold [OF Inr r] gvr using c cn by (auto split: if_splits)
  have g: "GetNamespace (SetNamespace ns obj0) = ns" by (rule SetNamespace_GetNamespace [OF n])
  from protocol_success [OF JSON_protocol [OF Inr r [unfolded gvr] c [unfolded cn] refl n refl refl] ok]
  show ?thesis unfolding g using Inr pre n by blast
qed

lemma YAML_kind_required:
  "YAMLToJSON k m = Inr jsonData \<Longrightarrow> json_Unmarshal k jsonData = Inr obj0 \<Longrightarrow>
   (if kind = [] then GetKind obj0 else kind) = [] \<Longrightarrow>
   \<exists>e. fst (CreateOrUpdateResourceYAML k ns m kind s) = Inl e"
  unfolding CreateOrUpdateResourceYAML_def by (simp add: Let_def)

lemma YAML_success:
  assumes ns: "ns \<noteq> []" and ok: "fst (CreateOrUpdateResourceYAML k ns m kind s) = Inr content"
  shows "\<exists>jsonData obj0 gvr h. YAMLToJSON k m = Inr jsonData \<and>
           json_Unmarshal k jsonData = Inr obj0 \<and> prefix (trace s) h \<and>
           GetName (SetNamespace ns obj0) \<noteq> [] \<and>
           (trace (snd (CreateOrUpdateResourceYAML k ns m kind s)) =
              h @ [ResourcePatch gvr ns (GetName (SetNamespace ns obj0)) MergePatchType jsonData] \<and>
            dynamic_reply k h
              (ResourcePatch gvr ns (GetName (SetNamespace ns obj0)) MergePatchType jsonData) =
              Inr content \<or>
            trace (snd (CreateOrUpdateResourceYAML k ns m kind s)) =
              h @ [ResourcePatch gvr ns (GetName (SetNamespace ns obj0)) MergePatchType jsonData,
                   ResourceCreate gvr ns (SetNamespace ns obj0)] \<and>
            IsNotFound (err_of (dynamic_reply k h
              (ResourcePatch gvr ns (GetName (SetNamespace ns obj0)) MergePatchType jsonData))) \<and>
            dynamic_reply k
              (h @ [ResourcePatch gvr ns (GetName (SetNamespace ns obj0)) MergePatchType jsonData])
              (ResourceCreate gvr ns (SetNamespace ns obj0)) = Inr content)"
proof (cases "YAMLToJSON k m")
  case (Inl e)
  with ok show ?thesis by (simp add: YAML_early)
next
  case (Inr jsonData)
  show ?thesis
  proof (cases "json_Unmarshal k jsonData")
    case (Inl e)
    with Inr ok show ?thesis by (simp add: YAML_early)
  next
    case obj0: (Inr obj0)
    define kd where "kd = (if kind = [] then GetKind obj0 else kind)"
    have obj: "SetNamespace ns obj0 = (if ns \<noteq> [] then SetNamespace ns obj0 else obj0)"
      using ns by simp
    have kd: "kd \<noteq> []"
    proof
      assume "kd = []"
      with YAML_kind_required [OF Inr obj0, of kind ns s]
      obtain e where "fst (CreateOrUpdateResourceYAML k ns m kind s) = Inl e"
        unfolding kd_def by blast
      with ok show False by simp
    qed
    obtain r s1 where r: "getCachedGVR k kd s = (r, s1)" by (cases "getCachedGVR k kd s")
    from getCachedGVR_new_events [OF r] obtain es where es: "trace s1 = trace s @ es" by blast
    have pre: "prefix (trace s) (trace s1)" using es by simp
    note u = YAML_unfold [OF Inr obj0 kd_def kd r obj]
    from ok obtain gvr where gvr: "r = Inr gvr" unfolding u by (cases r) simp_all
    from ok have n: "GetName (SetNamespace ns obj0) \<noteq> []"
      unfolding u gvr by (auto split: if_splits)
    have g: "GetNamespace (SetNamespace ns obj0) = ns" by (rule SetNamespace_GetNamespace [OF n])
    from protocol_success [OF YAML_protocol [OF Inr obj0 kd_def kd r [unfolded gvr] obj n refl refl] ok]
    show ?thesis unfolding g using Inr obj0 pre n by blast
  qed
qed

lemmas example_defs = example_cluster_def example_lists_def example_manifest_def
  example_json_def example_yaml_def not_found_def example_namespace_reply_def
  example_logs_reply_def example_dynamic_reply_def NewClient_def newline_def

lemma example_resolve_Pod:
  "apiResourceCache s ''Pod'' = None \<Longrightarrow>
   getCachedGVR example_cluster ''Pod'' s =
     (Inr \<lparr>Group = [], Version = ''v1'', Resource = ''pods''\<rparr>,
      s\<lparr>trace := trace s @ [RLock, RUnlock, ServerPreferredResources, Lock, Unlock],
        apiResourceCache := (apiResourceCache s)
          (''Pod'' \<mapsto> \<lparr>Group = [], Version = ''v1'', Resource = ''pods''\<rparr>)\<rparr>)"
  by (simp add: getCachedGVR_def example_defs Let_def ParseGroupVersion_def log_def)

lemma example_object:
  "SetNamespace ''default'' example_manifest =
     [(''kind'', JString ''Pod''),
      (''metadata'', JObject [(''name'', JString ''my-pod''), (''namespace'', JString ''default'')])]"
  "GetKind example_manifest = ''Pod''"
  "GetName (SetNamespace ''default'' example_manifest) = ''my-pod''"
  "GetNamespace (SetNamespace ''default'' example_manifest) = ''default''"
  by (simp_all add: SetNamespace_def example_manifest_def GetName_def GetNamespace_def GetKind_def
      getNestedString_def NestedString_def)

lemma example_namespace_check:
  "fst (namespace_check example_cluster ''default'' s) = None"
  "trace (snd (namespace_check example_cluster ''default'' s)) =
     trace s @ [NamespacesGet ''default'', NamespacesCreate ''default'']"
  by (simp_all add: namespace_check_eq Namespaces_Get_def Request_Name_def example_cluster_def
      example_namespace_reply_def not_found_def)

lemma example_parse:
  "json_Unmarshal example_cluster example_json = Inr example_manifest"
  "YAMLToJSON example_cluster example_yaml = Inr example_json"
  by (simp_all add: example_cluster_def)

lemma example_dynamic:
  "dynamic_reply example_cluster h (ResourcePatch gvr ns n MergePatchType d) = Inl not_found"
  "dynamic_reply example_cluster h (ResourceCreate gvr ns obj) = Inr obj"
  "ReasonForError not_found = StatusReasonNotFound"
  by (simp_all add: example_cluster_def example_dynamic_reply_def not_found_def)

lemma example_Namespaces_Get:
  "fst (Namespaces_Get example_cluster ''default'' s) = Some not_found"
  by (simp add: Namespaces_Get_def Request_Name_def example_cluster_def
      example_namespace_reply_def)

lemma example_Namespaces_Create:
  "namespace_reply example_cluster h (NamespacesCreate n) = None"
  by (simp add: example_cluster_def example_namespace_reply_def)

section \<open>Kind resolution: the cache\<close>






text \<open>
  Claim C3. Take a kind that no discovery answer of the cluster lists and that is not in
  the cache. After any run of client operations (which may resolve that kind any number
  of times), resolving it fails, leaves the cache as it is, and makes exactly one fresh
  discovery call, after releasing the shared lock. The error is "resource type ... not
  found" whenever the discovery call gave a usable answer (no error, or a partial
  group-discovery failure); otherwise it is the wrapped error of the discovery call.
\<close>

theorem resolve_unknown_kind:
  assumes absent: "\<forall>h. kind_absent kind (fst (discovery_reply k h))"
    and fresh: "apiResourceCache s0 kind = None"
  shows "let s = run k ops s0; err = snd (discovery_reply k (trace s @ [RLock, RUnlock]))
         in \<exists>e. getCachedGVR k kind s =
                  (Inl e, s\<lparr>trace := trace s @ [RLock, RUnlock, ServerPreferredResources]\<rparr>) \<and>
                (usable err \<longrightarrow> e = ErrorString (''resource type '' @ kind @ '' not found'')) \<and>
                (\<not> usable err \<longrightarrow>
                   (\<exists>x. err = Some x \<and> e = Errorf ''failed to retrieve API resources'' x))"
proof -
  have "apiResourceCache (run k ops s0) kind = None"
    by (rule run_absent [OF absent fresh])
  from getCachedGVR_miss [OF _ this, of k] absent
  show ?thesis unfolding usable_def Let_def by (auto split: option.splits)
qed

theorem resolve_unknown_kind_witness:
  "getCachedGVR example_cluster ''Widget''
     (run example_cluster [Resolve ''Widget'', Resolve ''Widget''] NewClient) =
   (Inl (ErrorString ''resource type Widget not found''),
    (run example_cluster [Resolve ''Widget'', Resolve ''Widget''] NewClient)
      \<lparr>trace := trace (run example_cluster [Resolve ''Widget'', Resolve ''Widget''] NewClient) @
         [RLock, RUnlock, ServerPreferredResources]\<rparr>)"
proof -
  have a: "\<forall>h. kind_absent ''Widget'' (fst (discovery_reply example_cluster h))"
    by (simp add: kind_absent_def example_cluster_def example_lists_def)
  have b: "apiResourceCache NewClient ''Widget'' = None"
    by (simp add: NewClient_def)
  have c: "usable (snd (discovery_reply example_cluster h))" for h
    by (simp add: usable_def example_cluster_def)
  show ?thesis
    using resolve_unknown_kind [OF a b, of "[Resolve ''Widget'', Resolve ''Widget'']"] c
    by (auto simp: Let_def)
qed

section \<open>Create or update: patch first, create on not-found\<close>

text \<open>
  Claim C1, amended. Take a call of either variant that has parsed its manifest and
  resolved the kind. If the document has a name and, in the JSON variant, the namespace
  check (the lookup, and the creation after a not-found lookup) ended without error,
  the next call is a merge patch \<open>P\<close> of the object by name on the dynamic client; the
  create \<open>C\<close> of the object follows if and only if the answer to the patch is a
  not-found error. So from there the calls are \<open>[P]\<close> when the patch succeeds or fails
  otherwise, and \<open>[P, C]\<close> for an object that does not exist: one failed patch, one
  create of the object. The result is the patched object, the wrapped patch error, or
  the outcome of the create. If the document has no name, or the namespace check of the
  JSON variant ended with an error, the call returns an error and sends no patch and no
  create. And for every input whatsoever, the patches and creates of a call on the
  dynamic client are none, one merge patch, or one merge patch followed by one create of
  the same object.
\<close>

theorem createOrUpdate_patch_first:
  "(json_Unmarshal k manifestJSON = Inr obj0 \<and>
    getCachedGVR k kind s = (Inr gvr, s1) \<and>
    namespace_check k namespace s1 = (None, s4) \<and>
    obj = SetNamespace namespace obj0 \<and> GetName obj \<noteq> [] \<and>
    P = ResourcePatch gvr (GetNamespace obj) (GetName obj) MergePatchType manifestJSON \<and>
    C = ResourceCreate gvr (GetNamespace obj) obj \<and>
    R = CreateOrUpdateResourceJSON k namespace manifestJSON kind s \<longrightarrow>
    new_events s4 (snd R) =
      (if IsNotFound (err_of (dynamic_reply k (trace s4) P)) then [P, C] else [P]) \<and>
    fst R =
      (case dynamic_reply k (trace s4) P of
         Inr content \<Rightarrow> Inr content
       | Inl e \<Rightarrow>
           if IsNotFound (Some e)
           then (case dynamic_reply k (trace s4 @ [P]) C of
                   Inl e' \<Rightarrow> Inl (Errorf ''failed to create or patch resource'' e')
                 | Inr content \<Rightarrow> Inr content)
           else Inl (Errorf ''failed to create or patch resource'' e))) \<and>
   (YAMLToJSON k' yamlManifest = Inr jsonData \<and>
    json_Unmarshal k' jsonData = Inr obj0' \<and>
    resourceKind = (if kind' = [] then GetKind obj0' else kind') \<and> resourceKind \<noteq> [] \<and>
    getCachedGVR k' resourceKind s' = (Inr gvr', s1') \<and>
    obj' = (if namespace' \<noteq> [] then SetNamespace namespace' obj0' else obj0') \<and>
    GetName obj' \<noteq> [] \<and>
    P' = ResourcePatch gvr' (GetNamespace obj') (GetName obj') MergePatchType jsonData \<and>
    C' = ResourceCreate gvr' (GetNamespace obj') obj' \<and>
    R' = CreateOrUpdateResourceYAML k' namespace' yamlManifest kind' s' \<longrightarrow>
    new_events s1' (snd R') =
      (if IsNotFound (err_of (dynamic_reply k' (trace s1') P')) then [P', C'] else [P']) \<and>
    fst R' =
      (case dynamic_reply k' (trace s1') P' of
         Inr content \<Rightarrow> Inr content
       | Inl e \<Rightarrow>
           if IsNotFound (Some e)
           then (case dynamic_reply k' (trace s1' @ [P']) C' of
                   Inl e' \<Rightarrow>
                     Inl (Errorf ''failed to create or patch resource from YAML manifest'' e')
                 | Inr content \<Rightarrow> Inr content)
           else Inl (Errorf ''failed to create or patch resource from YAML manifest'' e))) \<and>
   (\<exists>gvr obj.
      filter is_resource_write
        (new_events s (snd (CreateOrUpdateResourceJSON k namespace manifestJSON kind s))) \<in>
      {[],
       [ResourcePatch gvr (GetNamespace obj) (GetName obj) MergePatchType manifestJSON],
       [ResourcePatch gvr (GetNamespace obj) (GetName obj) MergePatchType manifestJSON,
        ResourceCreate gvr (GetNamespace obj) obj]}) \<and>
   (\<exists>gvr obj body.
      filter is_resource_write
        (new_events s' (snd (CreateOrUpdateResourceYAML k' namespace' yamlManifest kind' s'))) \<in>
      {[],
       [ResourcePatch gvr (GetNamespace obj) (GetName obj) MergePatchType body],
       [ResourcePatch gvr (GetNamespace obj) (GetName obj) MergePatchType body,
        ResourceCreate gvr (GetNamespace obj) obj]}) \<and>
   (json_Unmarshal k manifestJSON = Inr obj0 \<and>
    getCachedGVR k kind s = (Inr gvr, s1) \<and>
    namespace_check k namespace s1 = (c, s4) \<and>
    (c \<noteq> None \<or> GetName (SetNamespace namespace obj0) = []) \<longrightarrow>
    (\<exists>e. CreateOrUpdateResourceJSON k namespace manifestJSON kind s = (Inl e, s4)) \<and>
    filter is_resource_write (new_events s s4) = []) \<and>
   (YAMLToJSON k' yamlManifest = Inr jsonData \<and>
    json_Unmarshal k' jsonData = Inr obj0' \<and>
    resourceKind = (if kind' = [] then GetKind obj0' else kind') \<and> resourceKind \<noteq> [] \<and>
    getCachedGVR k' resourceKind s' = (Inr gvr', s1') \<and>
    obj' = (if namespace' \<noteq> [] then SetNamespace namespace' obj0' else obj0') \<and>
    GetName obj' = [] \<longrightarrow>
    CreateOrUpdateResourceYAML k' namespace' yamlManifest kind' s' =
      (Inl (ErrorString ''resource name is required in YAML manifest''), s1'))"
proof (intro conjI impI; (elim conjE)?)
  assume a: "json_Unmarshal k manifestJSON = Inr obj0" "getCachedGVR k kind s = (Inr gvr, s1)"
    "namespace_check k namespace s1 = (None, s4)" "obj = SetNamespace namespace obj0"
    "GetName obj \<noteq> []"
    "P = ResourcePatch gvr (GetNamespace obj) (GetName obj) MergePatchType manifestJSON"
    "C = ResourceCreate gvr (GetNamespace obj) obj"
    and R: "R = CreateOrUpdateResourceJSON k namespace manifestJSON kind s"
  note eq = JSON_protocol [OF a]
  show "new_events s4 (snd R) =
      (if IsNotFound (err_of (dynamic_reply k (trace s4) P)) then [P, C] else [P])"
    unfolding R eq by (simp split: sum.splits)
  show "fst R =
      (case dynamic_reply k (trace s4) P of
         Inr content \<Rightarrow> Inr content
       | Inl e \<Rightarrow>
           if IsNotFound (Some e)
           then (case dynamic_reply k (trace s4 @ [P]) C of
                   Inl e' \<Rightarrow> Inl (Errorf ''failed to create or patch resource'' e')
                 | Inr content \<Rightarrow> Inr content)
           else Inl (Errorf ''failed to create or patch resource'' e))"
    unfolding R eq by (simp split: sum.splits)
next
  assume a: "YAMLToJSON k' yamlManifest = Inr jsonData" "json_Unmarshal k' jsonData = Inr obj0'"
    "resourceKind = (if kind' = [] then GetKind obj0' else kind')" "resourceKind \<noteq> []"
    "getCachedGVR k' resourceKind s' = (Inr gvr', s1')"
    "obj' = (if namespace' \<noteq> [] then SetNamespace namespace' obj0' else obj0')"
    "GetName obj' \<noteq> []"
    "P' = ResourcePatch gvr' (GetNamespace obj') (GetName obj') MergePatchType jsonData"
    "C' = ResourceCreate gvr' (GetNamespace obj') obj'"
    and R: "R' = CreateOrUpdateResourceYAML k' namespace' yamlManifest kind' s'"
  note eq = YAML_protocol [OF a]
  show "new_events s1' (snd R') =
      (if IsNotFound (err_of (dynamic_reply k' (trace s1') P')) then [P', C'] else [P'])"
    unfolding R eq by (simp split: sum.splits)
  show "fst R' =
      (case dynamic_reply k' (trace s1') P' of
         Inr content \<Rightarrow> Inr content
       | Inl e \<Rightarrow>
           if IsNotFound (Some e)
           then (case dynamic_reply k' (trace s1' @ [P']) C' of
                   Inl e' \<Rightarrow>
                     Inl (Errorf ''failed to create or patch resource from YAML manifest'' e')
                 | Inr content \<Rightarrow> Inr content)
           else Inl (Errorf ''failed to create or patch resource from YAML manifest'' e))"
    unfolding R eq by (simp split: sum.splits)
next
  show "\<exists>gvr obj.
      filter is_resource_write
        (new_events s (snd (CreateOrUpdateResourceJSON k namespace manifestJSON kind s))) \<in>
      {[],
       [ResourcePatch gvr (GetNamespace obj) (GetName obj) MergePatchType manifestJSON],
       [ResourcePatch gvr (GetNamespace obj) (GetName obj) MergePatchType manifestJSON,
        ResourceCreate gvr (GetNamespace obj) obj]}"
    by (rule JSON_write_list)
next
  show "\<exists>gvr obj body.
      filter is_resource_write
        (new_events s' (snd (CreateOrUpdateResourceYAML k' namespace' yamlManifest kind' s'))) \<in>
      {[],
       [ResourcePatch gvr (GetNamespace obj) (GetName obj) MergePatchType body],
       [ResourcePatch gvr (GetNamespace obj) (GetName obj) MergePatchType body,
        ResourceCreate gvr (GetNamespace obj) obj]}"
    by (rule YAML_write_list)
next
  assume a: "json_Unmarshal k manifestJSON = Inr obj0" "getCachedGVR k kind s = (Inr gvr, s1)"
    "namespace_check k namespace s1 = (c, s4)"
    "c \<noteq> None \<or> GetName (SetNamespace namespace obj0) = []"
  from JSON_no_patch [OF a]
  show "\<exists>e. CreateOrUpdateResourceJSON k namespace manifestJSON kind s = (Inl e, s4)"
    and "filter is_resource_write (new_events s s4) = []"
    by blast+
next
  assume "YAMLToJSON k' yamlManifest = Inr jsonData" "json_Unmarshal k' jsonData = Inr obj0'"
    "resourceKind = (if kind' = [] then GetKind obj0' else kind')" "resourceKind \<noteq> []"
    "getCachedGVR k' resourceKind s' = (Inr gvr', s1')"
    "obj' = (if namespace' \<noteq> [] then SetNamespace namespace' obj0' else obj0')"
    "GetName obj' = []"
  then show "CreateOrUpdateResourceYAML k' namespace' yamlManifest kind' s' =
      (Inl (ErrorString ''resource name is required in YAML manifest''), s1')"
    by (rule YAML_no_patch)
qed

text \<open>
  As first stated, with parsing and kind resolution as the only conditions, the claim
  fails: a manifest with a kind and no name is parsed, its kind resolves, and the call
  returns "resource name is required" after the events of the resolution alone, without
  a patch.
\<close>

theorem createOrUpdate_patch_first_counterexample:
  "YAMLToJSON nameless_cluster nameless_yaml = Inr nameless_json \<and>
   json_Unmarshal nameless_cluster nameless_json = Inr nameless_manifest \<and>
   getCachedGVR nameless_cluster ''Pod'' NewClient =
     (Inr \<lparr>Group = [], Version = ''v1'', Resource = ''pods''\<rparr>,
      NewClient\<lparr>trace := [RLock, RUnlock, ServerPreferredResources, Lock, Unlock],
        apiResourceCache := Map.empty
          (''Pod'' \<mapsto> \<lparr>Group = [], Version = ''v1'', Resource = ''pods''\<rparr>)\<rparr>) \<and>
   CreateOrUpdateResourceYAML nameless_cluster ''default'' nameless_yaml [] NewClient =
     (Inl (ErrorString ''resource name is required in YAML manifest''),
      NewClient\<lparr>trace := [RLock, RUnlock, ServerPreferredResources, Lock, Unlock],
        apiResourceCache := Map.empty
          (''Pod'' \<mapsto> \<lparr>Group = [], Version = ''v1'', Resource = ''pods''\<rparr>)\<rparr>)"
proof -
  have a: "YAMLToJSON nameless_cluster nameless_yaml = Inr nameless_json"
    "json_Unmarshal nameless_cluster nameless_json = Inr nameless_manifest"
    by (simp_all add: nameless_cluster_def)
  have r: "getCachedGVR nameless_cluster ''Pod'' NewClient =
     (Inr \<lparr>Group = [], Version = ''v1'', Resource = ''pods''\<rparr>,
      NewClient\<lparr>trace := [RLock, RUnlock, ServerPreferredResources, Lock, Unlock],
        apiResourceCache := Map.empty
          (''Pod'' \<mapsto> \<lparr>Group = [], Version = ''v1'', Resource = ''pods''\<rparr>)\<rparr>)"
    by (simp add: getCachedGVR_def nameless_cluster_def example_defs Let_def
        ParseGroupVersion_def log_def)
  have k: "GetKind nameless_manifest = ''Pod''"
    "GetName (SetNamespace ''default'' nameless_manifest) = []"
    by (simp_all add: nameless_manifest_def GetKind_def GetName_def SetNamespace_def
        getNestedString_def NestedString_def)
  have "CreateOrUpdateResourceYAML nameless_cluster ''default'' nameless_yaml [] NewClient =
     (Inl (ErrorString ''resource name is required in YAML manifest''),
      NewClient\<lparr>trace := [RLock, RUnlock, ServerPreferredResources, Lock, Unlock],
        apiResourceCache := Map.empty
          (''Pod'' \<mapsto> \<lparr>Group = [], Version = ''v1'', Resource = ''pods''\<rparr>)\<rparr>)"
    using YAML_no_patch [OF a, where kd = "''Pod''" and kind = "[]" and s = NewClient
        and ns = "''default''" and obj = "SetNamespace ''default'' nameless_manifest", OF _ _ r]
      k
    by simp
  with a r show ?thesis by simp
qed

text \<open>The example manifest on the example cluster, where no object exists yet.\<close>

theorem createOrUpdate_patch_first_witness:
  "new_events
     (snd (namespace_check example_cluster ''default''
        (snd (getCachedGVR example_cluster ''Pod'' NewClient))))
     (snd (CreateOrUpdateResourceJSON example_cluster ''default'' example_json ''Pod'' NewClient)) =
     [ResourcePatch \<lparr>Group = [], Version = ''v1'', Resource = ''pods''\<rparr> ''default'' ''my-pod''
        MergePatchType example_json,
      ResourceCreate \<lparr>Group = [], Version = ''v1'', Resource = ''pods''\<rparr> ''default''
        (SetNamespace ''default'' example_manifest)] \<and>
   fst (CreateOrUpdateResourceJSON example_cluster ''default'' example_json ''Pod'' NewClient) =
     Inr (SetNamespace ''default'' example_manifest) \<and>
   new_events (snd (getCachedGVR example_cluster ''Pod'' NewClient))
     (snd (CreateOrUpdateResourceYAML example_cluster ''default'' example_yaml [] NewClient)) =
     [ResourcePatch \<lparr>Group = [], Version = ''v1'', Resource = ''pods''\<rparr> ''default'' ''my-pod''
        MergePatchType example_json,
      ResourceCreate \<lparr>Group = [], Version = ''v1'', Resource = ''pods''\<rparr> ''default''
        (SetNamespace ''default'' example_manifest)] \<and>
   fst (CreateOrUpdateResourceYAML example_cluster ''default'' example_yaml [] NewClient) =
     Inr (SetNamespace ''default'' example_manifest)"
proof -
  let ?gvr = "\<lparr>Group = [], Version = ''v1'', Resource = ''pods''\<rparr>"
  let ?s1 = "snd (getCachedGVR example_cluster ''Pod'' NewClient)"
  let ?s4 = "snd (namespace_check example_cluster ''default'' ?s1)"
  let ?obj = "SetNamespace ''default'' example_manifest"
  have r: "getCachedGVR example_cluster ''Pod'' NewClient = (Inr ?gvr, ?s1)"
    using example_resolve_Pod [of NewClient] by (simp add: NewClient_def)
  have c: "namespace_check example_cluster ''default'' ?s1 = (None, ?s4)"
    using example_namespace_check(1) [of ?s1] by (simp add: prod_eq_iff)
  show ?thesis
    using createOrUpdate_patch_first [where k = example_cluster and manifestJSON = example_json
        and ?obj0.0 = example_manifest and kind = "''Pod''" and s = NewClient and gvr = ?gvr
        and ?s1.0 = ?s1 and namespace = "''default''" and ?s4.0 = ?s4 and obj = ?obj
        and P = "ResourcePatch ?gvr ''default'' ''my-pod'' MergePatchType example_json"
        and C = "ResourceCreate ?gvr ''default'' ?obj"
        and R = "CreateOrUpdateResourceJSON example_cluster ''default'' example_json ''Pod'' NewClient"
        and k' = example_cluster and yamlManifest = example_yaml and jsonData = example_json
        and obj0' = example_manifest and resourceKind = "''Pod''" and kind' = "[]"
        and s' = NewClient and gvr' = ?gvr and s1' = ?s1 and obj' = ?obj
        and namespace' = "''default''"
        and P' = "ResourcePatch ?gvr ''default'' ''my-pod'' MergePatchType example_json"
        and C' = "ResourceCreate ?gvr ''default'' ?obj"
        and R' = "CreateOrUpdateResourceYAML example_cluster ''default'' example_yaml [] NewClient"]
      r c
    by (simp add: example_object(2-4) example_parse example_dynamic)
qed


section \<open>Describe and get\<close>

text \<open>
  Claim C9. \<open>DescribeResource\<close> and \<open>GetResource\<close> return the same result and leave the
  same state, for every cluster, every state and all arguments.
\<close>

theorem DescribeResource_is_GetResource:
  "DescribeResource k kind name namespace s = GetResource k kind name namespace s"
  by (simp add: DescribeResource_def GetResource_def)

section \<open>Rollout restart: validation after the patch\<close>

text \<open>
  Claim C7. When the kind resolves and the cluster answers the strategic patch with an
  object that has no \<open>spec.template\<close> map, \<open>RolloutRestart\<close> returns the error "does not
  support rollout restart", and the trace ends with that patch, which the cluster had
  accepted: the check comes after the mutation.
\<close>

theorem RolloutRestart_validates_after_patch:
  \<open>let patch = ''{"spec":{"template":{"metadata":{"annotations":'' @
                 ''{"kubectl.kubernetes.io/restartedAt":"'' @ time_Now k (trace s1) @ ''"}}}}}'';
        sent = ResourcePatch gvr namespace name StrategicMergePatchType patch
    in getCachedGVR k kind s0 = (Inr gvr, s1) \<and>
       dynamic_reply k (trace s1) sent = Inr content \<and>
       (\<forall>template. NestedMap content [''spec'', ''template''] \<noteq> Found template) \<longrightarrow>
       RolloutRestart k kind name namespace s0 =
         (Inl (ErrorString (''resource kind '' @ kind @
            '' does not support rollout restart (no spec.template)'')),
          s1\<lparr>trace := trace s1 @ [sent]\<rparr>)\<close>
  unfolding RolloutRestart_def Let_def
  by (auto simp: Resource_Patch_def log_def split: nested.splits)

theorem RolloutRestart_validates_after_patch_witness:
  \<open>RolloutRestart example_cluster ''Pod'' ''my-pod'' ''default'' NewClient =
     (Inl (ErrorString ''resource kind Pod does not support rollout restart (no spec.template)''),
      NewClient\<lparr>trace := [RLock, RUnlock, ServerPreferredResources, Lock, Unlock,
         ResourcePatch \<lparr>Group = [], Version = ''v1'', Resource = ''pods''\<rparr> ''default'' ''my-pod''
           StrategicMergePatchType
           ''{"spec":{"template":{"metadata":{"annotations":{"kubectl.kubernetes.io/restartedAt":"2024-01-01T00:00:00Z"}}}}}''],
        apiResourceCache := Map.empty
          (''Pod'' \<mapsto> \<lparr>Group = [], Version = ''v1'', Resource = ''pods''\<rparr>)\<rparr>)\<close>
proof -
  have a: "apiResourceCache NewClient ''Pod'' = None" by (simp add: NewClient_def)
  have b: "NestedMap [(''kind'', JString ''Pod'')] [''spec'', ''template''] \<noteq> Found template"
    for template by (simp add: NestedMap_def)
  show ?thesis
    using RolloutRestart_validates_after_patch [of example_cluster _ _ "''default''" "''my-pod''"
        "''Pod''" NewClient "[(''kind'', JString ''Pod'')]"]
      example_resolve_Pod [OF a] b
    by (simp add: Let_def example_cluster_def example_dynamic_reply_def NewClient_def)
qed


section \<open>Pod logs: partial failure\<close>



section \<open>Connection resolution\<close>

text \<open>
  Claim C4, amended. The four sources are tried in order and the first that applies
  decides: the inline kubeconfig if \<open>KUBECONFIG_DATA\<close> is set; else the server URL if
  \<open>KUBERNETES_SERVER\<close> is set, which fails without a token, takes the inline CA
  certificate if there is one, and reads the CA file (failing if it cannot be read) only
  when no inline CA certificate is set; else the in-cluster configuration if the
  service-account token file exists; else the kubeconfig file of the argument, of
  \<open>KUBECONFIG\<close>, or of the home directory.
\<close>

theorem BuildKubernetesConfig_order:
  "(Getenv p ''KUBECONFIG_DATA'' \<noteq> [] \<longrightarrow>
      BuildKubernetesConfig p kubeconfigPath =
        (case clientcmd_Load p (Getenv p ''KUBECONFIG_DATA'') of
           Inl err \<Rightarrow> Inl (Errorf ''failed to load kubeconfig from KUBECONFIG_DATA'' err)
         | Inr configObj \<Rightarrow>
             (case ClientConfig p configObj of
                Inl err \<Rightarrow> Inl (Errorf ''failed to build REST config from KUBECONFIG_DATA'' err)
              | Inr config \<Rightarrow> Inr config))) \<and>
   (Getenv p ''KUBECONFIG_DATA'' = [] \<and> Getenv p ''KUBERNETES_SERVER'' \<noteq> [] \<longrightarrow>
      (Getenv p ''KUBERNETES_TOKEN'' = [] \<longrightarrow>
         BuildKubernetesConfig p kubeconfigPath =
           Inl (ErrorString
             ''KUBERNETES_TOKEN environment variable is required when KUBERNETES_SERVER is set'')) \<and>
      (Getenv p ''KUBERNETES_TOKEN'' \<noteq> [] \<and> Getenv p ''KUBERNETES_CA_CERT'' \<noteq> [] \<longrightarrow>
         BuildKubernetesConfig p kubeconfigPath =
           Inr \<lparr>Host = Getenv p ''KUBERNETES_SERVER'', BearerToken = Getenv p ''KUBERNETES_TOKEN'',
                Insecure = (Getenv p ''KUBERNETES_INSECURE'' = ''true''),
                CAData = Getenv p ''KUBERNETES_CA_CERT''\<rparr>) \<and>
      (Getenv p ''KUBERNETES_TOKEN'' \<noteq> [] \<and> Getenv p ''KUBERNETES_CA_CERT'' = [] \<and>
       Getenv p ''KUBERNETES_CA_CERT_PATH'' \<noteq> [] \<longrightarrow>
         BuildKubernetesConfig p kubeconfigPath =
           (case ReadFile p (Getenv p ''KUBERNETES_CA_CERT_PATH'') of
              Inl err \<Rightarrow>
                Inl (Errorf (''failed to read CA certificate from '' @
                  Getenv p ''KUBERNETES_CA_CERT_PATH'') err)
            | Inr caCertData \<Rightarrow>
                Inr \<lparr>Host = Getenv p ''KUBERNETES_SERVER'',
                     BearerToken = Getenv p ''KUBERNETES_TOKEN'',
                     Insecure = (Getenv p ''KUBERNETES_INSECURE'' = ''true''),
                     CAData = caCertData\<rparr>)) \<and>
      (Getenv p ''KUBERNETES_TOKEN'' \<noteq> [] \<and> Getenv p ''KUBERNETES_CA_CERT'' = [] \<and>
       Getenv p ''KUBERNETES_CA_CERT_PATH'' = [] \<longrightarrow>
         BuildKubernetesConfig p kubeconfigPath =
           Inr \<lparr>Host = Getenv p ''KUBERNETES_SERVER'', BearerToken = Getenv p ''KUBERNETES_TOKEN'',
                Insecure = (Getenv p ''KUBERNETES_INSECURE'' = ''true''), CAData = []\<rparr>)) \<and>
   (Getenv p ''KUBECONFIG_DATA'' = [] \<and> Getenv p ''KUBERNETES_SERVER'' = [] \<and>
    Stat p serviceAccountTokenPath = None \<longrightarrow>
      BuildKubernetesConfig p kubeconfigPath =
        (case InClusterConfig p of
           Inl err \<Rightarrow> Inl (Errorf ''failed to create in-cluster config'' err)
         | Inr config \<Rightarrow> Inr config)) \<and>
   (Getenv p ''KUBECONFIG_DATA'' = [] \<and> Getenv p ''KUBERNETES_SERVER'' = [] \<and>
    Stat p serviceAccountTokenPath \<noteq> None \<longrightarrow>
      BuildKubernetesConfig p kubeconfigPath =
        (case BuildConfigFromFlags p []
                (if kubeconfigPath \<noteq> [] then kubeconfigPath
                 else if Getenv p ''KUBECONFIG'' \<noteq> [] then Getenv p ''KUBECONFIG''
                 else if HomeDir p \<noteq> [] then filepath_Join p [HomeDir p, ''.kube'', ''config'']
                 else []) of
           Inl err \<Rightarrow> Inl (Errorf ''failed to create Kubernetes configuration'' err)
         | Inr config \<Rightarrow> Inr config))"
  unfolding BuildKubernetesConfig_def Let_def
  by (simp split: sum.splits)

text \<open>
  The claim as first stated fails: with a server URL, a token and an inline CA
  certificate set, a CA file path that is set and cannot be read does not make the call
  fail, because the file is not read at all.
\<close>

theorem BuildKubernetesConfig_CA_path_counterexample:
  "Getenv example_process ''KUBECONFIG_DATA'' = [] \<and>
   Getenv example_process ''KUBERNETES_SERVER'' = ''https://10.0.0.1:6443'' \<and>
   Getenv example_process ''KUBERNETES_TOKEN'' = ''secret'' \<and>
   Getenv example_process ''KUBERNETES_CA_CERT_PATH'' = ''/missing/ca.crt'' \<and>
   ReadFile example_process ''/missing/ca.crt'' = Inl (ErrorString ''no such file or directory'') \<and>
   BuildKubernetesConfig example_process [] =
     Inr \<lparr>Host = ''https://10.0.0.1:6443'', BearerToken = ''secret'', Insecure = False,
          CAData = ''PEM''\<rparr>"
  by (simp add: BuildKubernetesConfig_def example_process_def example_getenv_def Let_def)

text \<open>Without the inline certificate the unreadable file is fatal.\<close>

theorem BuildKubernetesConfig_order_witness:
  "BuildKubernetesConfig example_process2 [] =
     Inl (Errorf ''failed to read CA certificate from /missing/ca.crt''
            (ErrorString ''no such file or directory''))"
  using BuildKubernetesConfig_order [of example_process2 "[]"]
  by (simp add: example_process2_def example_process_def example_getenv_def)


section \<open>Create or update: the namespace argument\<close>

text \<open>
  Claim C5. With a non-empty namespace argument, every patch and every create that
  either variant sends is addressed to that namespace, whatever namespace the manifest
  names, and the document submitted by a create carries the argument as
  \<open>metadata.namespace\<close>. A call of either variant that returns a document has sent such
  a write: its last event is a merge patch addressed to the argument that the cluster
  answered with the document, or the create, addressed to the argument and carrying it,
  that the cluster answered with the document after a not-found patch. In particular,
  in both variants, when the object does not exist yet and the cluster stores the
  document it is sent, the resulting document has \<open>metadata.namespace\<close> equal to the
  argument.
\<close>

theorem createOrUpdate_namespace_override:
  "namespace \<noteq> [] \<longrightarrow>
     (\<forall>e \<in> set (new_events s (snd (CreateOrUpdateResourceJSON k namespace manifest kind s))).
        is_resource_write e \<longrightarrow> addressed_to namespace e) \<and>
     (\<forall>e \<in> set (new_events s (snd (CreateOrUpdateResourceYAML k namespace manifest kind s))).
        is_resource_write e \<longrightarrow> addressed_to namespace e) \<and>
     (YAMLToJSON k manifest = Inr jsonData \<and> json_Unmarshal k jsonData = Inr obj0 \<and>
      resourceKind = (if kind = [] then GetKind obj0 else kind) \<and> resourceKind \<noteq> [] \<and>
      getCachedGVR k resourceKind s = (Inr gvr, s1) \<and>
      obj = SetNamespace namespace obj0 \<and> GetName obj \<noteq> [] \<and>
      P = ResourcePatch gvr namespace (GetName obj) MergePatchType jsonData \<and>
      IsNotFound (err_of (dynamic_reply k (trace s1) P)) \<and>
      dynamic_reply k (trace s1 @ [P]) (ResourceCreate gvr namespace obj) = Inr obj \<longrightarrow>
      fst (CreateOrUpdateResourceYAML k namespace manifest kind s) = Inr obj \<and>
      NestedString obj [''metadata'', ''namespace''] = Found namespace) \<and>
     (json_Unmarshal k manifestJSON = Inr obj0 \<and> getCachedGVR k kind' s = (Inr gvr, s1) \<and>
      namespace_check k namespace s1 = (None, s4) \<and>
      obj = SetNamespace namespace obj0 \<and> GetName obj \<noteq> [] \<and>
      P' = ResourcePatch gvr namespace (GetName obj) MergePatchType manifestJSON \<and>
      IsNotFound (err_of (dynamic_reply k (trace s4) P')) \<and>
      dynamic_reply k (trace s4 @ [P']) (ResourceCreate gvr namespace obj) = Inr obj \<longrightarrow>
      fst (CreateOrUpdateResourceJSON k namespace manifestJSON kind' s) = Inr obj \<and>
      NestedString obj [''metadata'', ''namespace''] = Found namespace) \<and>
     (fst (CreateOrUpdateResourceJSON k namespace manifestJSON kind' s) = Inr content \<longrightarrow>
      (\<exists>obj0 gvr h.
         json_Unmarshal k manifestJSON = Inr obj0 \<and> prefix (trace s) h \<and>
         NestedString (SetNamespace namespace obj0) [''metadata'', ''namespace''] =
           Found namespace \<and>
         (trace (snd (CreateOrUpdateResourceJSON k namespace manifestJSON kind' s)) =
            h @ [ResourcePatch gvr namespace (GetName (SetNamespace namespace obj0))
                   MergePatchType manifestJSON] \<and>
          dynamic_reply k h
            (ResourcePatch gvr namespace (GetName (SetNamespace namespace obj0))
               MergePatchType manifestJSON) = Inr content \<or>
          trace (snd (CreateOrUpdateResourceJSON k namespace manifestJSON kind' s)) =
            h @ [ResourcePatch gvr namespace (GetName (SetNamespace namespace obj0))
                   MergePatchType manifestJSON,
                 ResourceCreate gvr namespace (SetNamespace namespace obj0)] \<and>
          IsNotFound (err_of (dynamic_reply k h
            (ResourcePatch gvr namespace (GetName (SetNamespace namespace obj0))
               MergePatchType manifestJSON))) \<and>
          dynamic_reply k
            (h @ [ResourcePatch gvr namespace (GetName (SetNamespace namespace obj0))
                    MergePatchType manifestJSON])
            (ResourceCreate gvr namespace (SetNamespace namespace obj0)) = Inr content))) \<and>
     (fst (CreateOrUpdateResourceYAML k namespace manifest kind s) = Inr content' \<longrightarrow>
      (\<exists>jsonData obj0 gvr h.
         YAMLToJSON k manifest = Inr jsonData \<and> json_Unmarshal k jsonData = Inr obj0 \<and>
         prefix (trace s) h \<and>
         NestedString (SetNamespace namespace obj0) [''metadata'', ''namespace''] =
           Found namespace \<and>
         (trace (snd (CreateOrUpdateResourceYAML k namespace manifest kind s)) =
            h @ [ResourcePatch gvr namespace (GetName (SetNamespace namespace obj0))
                   MergePatchType jsonData] \<and>
          dynamic_reply k h
            (ResourcePatch gvr namespace (GetName (SetNamespace namespace obj0))
               MergePatchType jsonData) = Inr content' \<or>
          trace (snd (CreateOrUpdateResourceYAML k namespace manifest kind s)) =
            h @ [ResourcePatch gvr namespace (GetName (SetNamespace namespace obj0))
                   MergePatchType jsonData,
                 ResourceCreate gvr namespace (SetNamespace namespace obj0)] \<and>
          IsNotFound (err_of (dynamic_reply k h
            (ResourcePatch gvr namespace (GetName (SetNamespace namespace obj0))
               MergePatchType jsonData))) \<and>
          dynamic_reply k
            (h @ [ResourcePatch gvr namespace (GetName (SetNamespace namespace obj0))
                    MergePatchType jsonData])
            (ResourceCreate gvr namespace (SetNamespace namespace obj0)) = Inr content')))"
proof (intro impI conjI ballI; (elim conjE)?)
  fix e
  assume ns: "namespace \<noteq> []"
    and e: "e \<in> set (new_events s (snd (CreateOrUpdateResourceJSON k namespace manifest kind s)))"
      "is_resource_write e"
  from JSON_writes [of k namespace manifest kind s] obtain es ws where
    t: "trace (snd (CreateOrUpdateResourceJSON k namespace manifest kind s)) = trace s @ es @ ws"
    and es: "\<forall>e \<in> set es. \<not> is_resource_write e"
    and ws: "ws = [] \<or>
      (\<exists>obj0 gvr. json_Unmarshal k manifest = Inr obj0 \<and>
         GetName (SetNamespace namespace obj0) \<noteq> [] \<and>
         (ws = [ResourcePatch gvr (GetNamespace (SetNamespace namespace obj0))
                  (GetName (SetNamespace namespace obj0)) MergePatchType manifest] \<or>
          ws = [ResourcePatch gvr (GetNamespace (SetNamespace namespace obj0))
                  (GetName (SetNamespace namespace obj0)) MergePatchType manifest,
                ResourceCreate gvr (GetNamespace (SetNamespace namespace obj0))
                  (SetNamespace namespace obj0)]))"
    by blast
  from t have "new_events s (snd (CreateOrUpdateResourceJSON k namespace manifest kind s)) = es @ ws"
    by (rule new_events_append)
  with e es have "e \<in> set ws" by auto
  with ws addressed_writes [OF ns] show "addressed_to namespace e" by auto
next
  fix e
  assume ns: "namespace \<noteq> []"
    and e: "e \<in> set (new_events s (snd (CreateOrUpdateResourceYAML k namespace manifest kind s)))"
      "is_resource_write e"
  from YAML_writes [of k namespace manifest kind s] obtain es ws where
    t: "trace (snd (CreateOrUpdateResourceYAML k namespace manifest kind s)) = trace s @ es @ ws"
    and es: "\<forall>e \<in> set es. \<not> is_resource_write e \<and> \<not> is_namespace_call e"
    and ws: "ws = [] \<or>
      (\<exists>jsonData obj0 gvr obj.
         YAMLToJSON k manifest = Inr jsonData \<and> json_Unmarshal k jsonData = Inr obj0 \<and>
         obj = (if namespace \<noteq> [] then SetNamespace namespace obj0 else obj0) \<and>
         GetName obj \<noteq> [] \<and>
         (ws = [ResourcePatch gvr (GetNamespace obj) (GetName obj) MergePatchType jsonData] \<or>
          ws = [ResourcePatch gvr (GetNamespace obj) (GetName obj) MergePatchType jsonData,
                ResourceCreate gvr (GetNamespace obj) obj]))"
    by blast
  from t have "new_events s (snd (CreateOrUpdateResourceYAML k namespace manifest kind s)) = es @ ws"
    by (rule new_events_append)
  with e es have "e \<in> set ws" by auto
  with ws ns addressed_writes [OF ns] show "addressed_to namespace e" by auto
next
  assume ns: "namespace \<noteq> []"
    and a: "YAMLToJSON k manifest = Inr jsonData" "json_Unmarshal k jsonData = Inr obj0"
      "resourceKind = (if kind = [] then GetKind obj0 else kind)" "resourceKind \<noteq> []"
      "getCachedGVR k resourceKind s = (Inr gvr, s1)"
    and obj: "obj = SetNamespace namespace obj0" and n: "GetName obj \<noteq> []"
    and P: "P = ResourcePatch gvr namespace (GetName obj) MergePatchType jsonData"
    and nf: "IsNotFound (err_of (dynamic_reply k (trace s1) P))"
    and echo: "dynamic_reply k (trace s1 @ [P]) (ResourceCreate gvr namespace obj) = Inr obj"
  have g: "GetNamespace obj = namespace"
    using SetNamespace_GetNamespace n unfolding obj by blast
  have obj': "obj = (if namespace \<noteq> [] then SetNamespace namespace obj0 else obj0)"
    using ns obj by simp
  from nf obtain e where pe: "dynamic_reply k (trace s1) P = Inl e" "IsNotFound (Some e)"
    by (cases "dynamic_reply k (trace s1) P") simp_all
  show "fst (CreateOrUpdateResourceYAML k namespace manifest kind s) = Inr obj"
    unfolding YAML_protocol [OF a obj' n refl refl] g
    using pe echo unfolding P by simp
  show "NestedString obj [''metadata'', ''namespace''] = Found namespace"
    unfolding obj using SetNamespace_Found [OF ns] n obj by blast
next
  assume ns: "namespace \<noteq> []"
    and a: "json_Unmarshal k manifestJSON = Inr obj0" "getCachedGVR k kind' s = (Inr gvr, s1)"
      "namespace_check k namespace s1 = (None, s4)"
    and obj: "obj = SetNamespace namespace obj0" and n: "GetName obj \<noteq> []"
    and P: "P' = ResourcePatch gvr namespace (GetName obj) MergePatchType manifestJSON"
    and nf: "IsNotFound (err_of (dynamic_reply k (trace s4) P'))"
    and echo: "dynamic_reply k (trace s4 @ [P']) (ResourceCreate gvr namespace obj) = Inr obj"
  have g: "GetNamespace obj = namespace"
    using SetNamespace_GetNamespace n unfolding obj by blast
  from nf obtain e where pe: "dynamic_reply k (trace s4) P' = Inl e" "IsNotFound (Some e)"
    by (cases "dynamic_reply k (trace s4) P'") simp_all
  show "fst (CreateOrUpdateResourceJSON k namespace manifestJSON kind' s) = Inr obj"
    unfolding JSON_protocol [OF a obj n refl refl] g
    using pe echo unfolding P by simp
  show "NestedString obj [''metadata'', ''namespace''] = Found namespace"
    unfolding obj using SetNamespace_Found [OF ns] n obj by blast
next
  assume ns: "namespace \<noteq> []"
    and ok: "fst (CreateOrUpdateResourceJSON k namespace manifestJSON kind' s) = Inr content"
  from JSON_success [OF ok] obtain obj0 gvr h where
    f: "json_Unmarshal k manifestJSON = Inr obj0" "prefix (trace s) h"
      "GetName (SetNamespace namespace obj0) \<noteq> []"
    and w: "trace (snd (CreateOrUpdateResourceJSON k namespace manifestJSON kind' s)) =
            h @ [ResourcePatch gvr namespace (GetName (SetNamespace namespace obj0))
                   MergePatchType manifestJSON] \<and>
          dynamic_reply k h
            (ResourcePatch gvr namespace (GetName (SetNamespace namespace obj0))
               MergePatchType manifestJSON) = Inr content \<or>
          trace (snd (CreateOrUpdateResourceJSON k namespace manifestJSON kind' s)) =
            h @ [ResourcePatch gvr namespace (GetName (SetNamespace namespace obj0))
                   MergePatchType manifestJSON,
                 ResourceCreate gvr namespace (SetNamespace namespace obj0)] \<and>
          IsNotFound (err_of (dynamic_reply k h
            (ResourcePatch gvr namespace (GetName (SetNamespace namespace obj0))
               MergePatchType manifestJSON))) \<and>
          dynamic_reply k
            (h @ [ResourcePatch gvr namespace (GetName (SetNamespace namespace obj0))
                    MergePatchType manifestJSON])
            (ResourceCreate gvr namespace (SetNamespace namespace obj0)) = Inr content"
    by blast
  note SetNamespace_Found [OF ns f(3)]
  with f w show "\<exists>obj0 gvr h.
         json_Unmarshal k manifestJSON = Inr obj0 \<and> prefix (trace s) h \<and>
         NestedString (SetNamespace namespace obj0) [''metadata'', ''namespace''] =
           Found namespace \<and>
         (trace (snd (CreateOrUpdateResourceJSON k namespace manifestJSON kind' s)) =
            h @ [ResourcePatch gvr namespace (GetName (SetNamespace namespace obj0))
                   MergePatchType manifestJSON] \<and>
          dynamic_reply k h
            (ResourcePatch gvr namespace (GetName (SetNamespace namespace obj0))
               MergePatchType manifestJSON) = Inr content \<or>
          trace (snd (CreateOrUpdateResourceJSON k namespace manifestJSON kind' s)) =
            h @ [ResourcePatch gvr namespace (GetName (SetNamespace namespace obj0))
                   MergePatchType manifestJSON,
                 ResourceCreate gvr namespace (SetNamespace namespace obj0)] \<and>
          IsNotFound (err_of (dynamic_reply k h
            (ResourcePatch gvr namespace (GetName (SetNamespace namespace obj0))
               MergePatchType manifestJSON))) \<and>
          dynamic_reply k
            (h @ [ResourcePatch gvr namespace (GetName (SetNamespace namespace obj0))
                    MergePatchType manifestJSON])
            (ResourceCreate gvr namespace (SetNamespace namespace obj0)) = Inr content)"
    by blast
next
  assume ns: "namespace \<noteq> []"
    and ok: "fst (CreateOrUpdateResourceYAML k namespace manifest kind s) = Inr content'"
  from YAML_success [OF ns ok] obtain jsonData obj0 gvr h where
    f: "YAMLToJSON k manifest = Inr jsonData" "json_Unmarshal k jsonData = Inr obj0"
      "prefix (trace s) h" "GetName (SetNamespace namespace obj0) \<noteq> []"
    and w: "trace (snd (CreateOrUpdateResourceYAML k namespace manifest kind s)) =
            h @ [ResourcePatch gvr namespace (GetName (SetNamespace namespace obj0))
                   MergePatchType jsonData] \<and>
          dynamic_reply k h
            (ResourcePatch gvr namespace (GetName (SetNamespace namespace obj0))
               MergePatchType jsonData) = Inr content' \<or>
          trace (snd (CreateOrUpdateResourceYAML k namespace manifest kind s)) =
            h @ [ResourcePatch gvr namespace (GetName (SetNamespace namespace obj0))
                   MergePatchType jsonData,
                 ResourceCreate gvr namespace (SetNamespace namespace obj0)] \<and>
          IsNotFound (err_of (dynamic_reply k h
            (ResourcePatch gvr namespace (GetName (SetNamespace namespace obj0))
               MergePatchType jsonData))) \<and>
          dynamic_reply k
            (h @ [ResourcePatch gvr namespace (GetName (SetNamespace namespace obj0))
                    MergePatchType jsonData])
            (ResourceCreate gvr namespace (SetNamespace namespace obj0)) = Inr content'"
    by blast
  note SetNamespace_Found [OF ns f(4)]
  with f w show "\<exists>jsonData obj0 gvr h.
         YAMLToJSON k manifest = Inr jsonData \<and> json_Unmarshal k jsonData = Inr obj0 \<and>
         prefix (trace s) h \<and>
         NestedString (SetNamespace namespace obj0) [''metadata'', ''namespace''] =
           Found namespace \<and>
         (trace (snd (CreateOrUpdateResourceYAML k namespace manifest kind s)) =
            h @ [ResourcePatch gvr namespace (GetName (SetNamespace namespace obj0))
                   MergePatchType jsonData] \<and>
          dynamic_reply k h
            (ResourcePatch gvr namespace (GetName (SetNamespace namespace obj0))
               MergePatchType jsonData) = Inr content' \<or>
          trace (snd (CreateOrUpdateResourceYAML k namespace manifest kind s)) =
            h @ [ResourcePatch gvr namespace (GetName (SetNamespace namespace obj0))
                   MergePatchType jsonData,
                 ResourceCreate gvr namespace (SetNamespace namespace obj0)] \<and>
          IsNotFound (err_of (dynamic_reply k h
            (ResourcePatch gvr namespace (GetName (SetNamespace namespace obj0))
               MergePatchType jsonData))) \<and>
          dynamic_reply k
            (h @ [ResourcePatch gvr namespace (GetName (SetNamespace namespace obj0))
                    MergePatchType jsonData])
            (ResourceCreate gvr namespace (SetNamespace namespace obj0)) = Inr content')"
    by blast
qed

theorem createOrUpdate_namespace_override_witness:
  "fst (CreateOrUpdateResourceYAML example_cluster ''default'' example_yaml [] NewClient) =
     Inr (SetNamespace ''default'' example_manifest) \<and>
   fst (CreateOrUpdateResourceJSON example_cluster ''default'' example_json ''Pod'' NewClient) =
     Inr (SetNamespace ''default'' example_manifest) \<and>
   NestedString (SetNamespace ''default'' example_manifest) [''metadata'', ''namespace''] =
     Found ''default''"
proof -
  let ?gvr = "\<lparr>Group = [], Version = ''v1'', Resource = ''pods''\<rparr>"
  let ?s1 = "snd (getCachedGVR example_cluster ''Pod'' NewClient)"
  let ?s4 = "snd (namespace_check example_cluster ''default'' ?s1)"
  let ?obj = "SetNamespace ''default'' example_manifest"
  have r: "getCachedGVR example_cluster ''Pod'' NewClient = (Inr ?gvr, ?s1)"
    using example_resolve_Pod [of NewClient] by (simp add: NewClient_def)
  have c: "namespace_check example_cluster ''default'' ?s1 = (None, ?s4)"
    using example_namespace_check(1) [of ?s1] by (simp add: prod_eq_iff)
  show ?thesis
    using createOrUpdate_namespace_override [where k = example_cluster
        and namespace = "''default''" and manifest = example_yaml and kind = "[]"
        and s = NewClient and jsonData = example_json and ?obj0.0 = example_manifest
        and resourceKind = "''Pod''" and gvr = ?gvr and ?s1.0 = ?s1 and obj = ?obj
        and P = "ResourcePatch ?gvr ''default'' ''my-pod'' MergePatchType example_json"
        and manifestJSON = example_json and kind' = "''Pod''" and ?s4.0 = ?s4
        and P' = "ResourcePatch ?gvr ''default'' ''my-pod'' MergePatchType example_json"]
      r c
    by (simp add: example_object(2-4) example_parse example_dynamic)
qed

section \<open>Create or update: creating the namespace\<close>

text \<open>
  Claim C6. In the JSON variant, after the manifest is parsed and the kind resolved
  (which makes no write), the first call is the lookup of the target namespace. If the
  lookup succeeds no namespace is created. If it fails with not-found the namespace is
  created next, and after a successful creation the call goes on to the patch. Any other
  failure of the lookup, and a failure of the creation, end the call with that error and
  nothing else is sent. The YAML variant makes no namespace call at all.
\<close>

theorem namespace_creation_asymmetry:
  "(json_Unmarshal k manifestJSON = Inr obj0 \<and>
    getCachedGVR k kind s = (Inr gvr, s1) \<and>
    found = fst (Namespaces_Get k namespace s1) \<and>
    created = namespace_reply k (trace s1 @ [NamespacesGet namespace]) (NamespacesCreate namespace) \<and>
    R = CreateOrUpdateResourceJSON k namespace manifestJSON kind s \<longrightarrow>
      filter is_resource_write (new_events s s1) = [] \<and>
      prefix [NamespacesGet namespace] (new_events s1 (snd R)) \<and>
      (found = None \<longrightarrow>
         filter is_namespace_call (new_events s1 (snd R)) = [NamespacesGet namespace]) \<and>
      (IsNotFound found \<longrightarrow>
         prefix [NamespacesGet namespace, NamespacesCreate namespace] (new_events s1 (snd R)) \<and>
         filter is_namespace_call (new_events s1 (snd R)) =
           [NamespacesGet namespace, NamespacesCreate namespace]) \<and>
      (IsNotFound found \<and> created = None \<and> GetName (SetNamespace namespace obj0) \<noteq> [] \<longrightarrow>
         prefix [NamespacesGet namespace, NamespacesCreate namespace,
                 ResourcePatch gvr namespace (GetName (SetNamespace namespace obj0))
                   MergePatchType manifestJSON]
           (new_events s1 (snd R))) \<and>
      (\<forall>e. found = Some e \<and> \<not> IsNotFound found \<longrightarrow>
         R = (Inl (Errorf ''failed to retrieve namespace resource'' e),
              s1\<lparr>trace := trace s1 @ [NamespacesGet namespace]\<rparr>)) \<and>
      (\<forall>e. IsNotFound found \<and> created = Some e \<longrightarrow>
         fst R = Inl (Errorf ''failed to retrieve namespace resource'' e) \<and>
         new_events s1 (snd R) = [NamespacesGet namespace, NamespacesCreate namespace])) \<and>
   filter is_namespace_call
     (new_events s' (snd (CreateOrUpdateResourceYAML k' namespace' yamlManifest kind' s'))) = []"
proof (intro conjI impI allI; (elim conjE)?)
  show "filter is_namespace_call
     (new_events s' (snd (CreateOrUpdateResourceYAML k' namespace' yamlManifest kind' s'))) = []"
    by (rule YAML_no_namespace_call)
next
  assume r: "getCachedGVR k kind s = (Inr gvr, s1)"
  from getCachedGVR_new_events [OF r] obtain es where
    "trace s1 = trace s @ es" "\<forall>e \<in> set es. \<not> is_resource_write e \<and> \<not> is_namespace_call e"
    by blast
  then show "filter is_resource_write (new_events s s1) = []"
    by (simp add: new_events_append filter_empty_conv)
next
  assume p: "json_Unmarshal k manifestJSON = Inr obj0"
    and r: "getCachedGVR k kind s = (Inr gvr, s1)"
    and R: "R = CreateOrUpdateResourceJSON k namespace manifestJSON kind s"
  obtain c s4 where c: "namespace_check k namespace s1 = (c, s4)"
    by (cases "namespace_check k namespace s1")
  from namespace_check_trace [OF c] obtain fs where
    fs: "trace s4 = trace s1 @ NamespacesGet namespace # fs" by auto
  show "prefix [NamespacesGet namespace] (new_events s1 (snd R))"
  proof (cases c)
    case None
    from JSON_tail [OF p r c [unfolded None]] obtain ws where
      "trace (snd R) = trace s4 @ ws" unfolding R by blast
    with fs have "trace (snd R) = trace s1 @ (NamespacesGet namespace # fs @ ws)" by simp
    from new_events_append [OF this] show ?thesis by simp
  next
    case (Some e)
    from JSON_check_failed [OF p r c [unfolded Some]] fs
    have "trace (snd R) = trace s1 @ (NamespacesGet namespace # fs)" unfolding R by simp
    from new_events_append [OF this] show ?thesis by simp
  qed
next
  assume p: "json_Unmarshal k manifestJSON = Inr obj0"
    and r: "getCachedGVR k kind s = (Inr gvr, s1)"
    and f: "found = fst (Namespaces_Get k namespace s1)"
    and R: "R = CreateOrUpdateResourceJSON k namespace manifestJSON kind s"
    and n: "found = None"
  have c: "namespace_check k namespace s1 =
    (None, Printf (''Namespace '' @ namespace @ '' exists'' @ newline) (log (NamespacesGet namespace) s1))"
    using n f by (simp add: namespace_check_found)
  from JSON_tail [OF p r c] obtain ws where
    ws: "trace (snd R) = trace s1 @ (NamespacesGet namespace # ws)"
      "\<forall>e \<in> set ws. \<not> is_namespace_call e" unfolding R by auto
  show "filter is_namespace_call (new_events s1 (snd R)) = [NamespacesGet namespace]"
    unfolding new_events_append [OF ws(1)] using ws(2) by (simp add: filter_empty_conv)
next
  assume p: "json_Unmarshal k manifestJSON = Inr obj0"
    and r: "getCachedGVR k kind s = (Inr gvr, s1)"
    and f: "found = fst (Namespaces_Get k namespace s1)"
    and cr: "created = namespace_reply k (trace s1 @ [NamespacesGet namespace]) (NamespacesCreate namespace)"
    and R: "R = CreateOrUpdateResourceJSON k namespace manifestJSON kind s"
    and n: "IsNotFound found"
  let ?s4 = "log (NamespacesCreate namespace)
              (Printf (''Namespace '' @ namespace @ '' does not exist, creating one'' @ newline)
                 (log (NamespacesGet namespace) s1))"
  have c: "namespace_check k namespace s1 = (created, ?s4)"
    using n f cr by (simp add: namespace_check_notfound)
  have "\<exists>ws. trace (snd R) = trace s1 @ (NamespacesGet namespace # NamespacesCreate namespace # ws) \<and>
          (\<forall>e \<in> set ws. \<not> is_namespace_call e)"
  proof (cases created)
    case None
    from JSON_tail [OF p r c [unfolded None]] show ?thesis unfolding R by auto
  next
    case (Some e)
    from JSON_check_failed [OF p r c [unfolded Some]] show ?thesis unfolding R by simp
  qed
  then obtain ws where
    ws: "trace (snd R) = trace s1 @ (NamespacesGet namespace # NamespacesCreate namespace # ws)"
      "\<forall>e \<in> set ws. \<not> is_namespace_call e" by blast
  show "prefix [NamespacesGet namespace, NamespacesCreate namespace] (new_events s1 (snd R))"
    unfolding new_events_append [OF ws(1)] by simp
  show "filter is_namespace_call (new_events s1 (snd R)) =
           [NamespacesGet namespace, NamespacesCreate namespace]"
    unfolding new_events_append [OF ws(1)] using ws(2) by (simp add: filter_empty_conv)
next
  assume p: "json_Unmarshal k manifestJSON = Inr obj0"
    and r: "getCachedGVR k kind s = (Inr gvr, s1)"
    and f: "found = fst (Namespaces_Get k namespace s1)"
    and cr: "created = namespace_reply k (trace s1 @ [NamespacesGet namespace]) (NamespacesCreate namespace)"
    and R: "R = CreateOrUpdateResourceJSON k namespace manifestJSON kind s"
    and n: "IsNotFound found" "created = None" "GetName (SetNamespace namespace obj0) \<noteq> []"
  let ?s4 = "log (NamespacesCreate namespace)
              (Printf (''Namespace '' @ namespace @ '' does not exist, creating one'' @ newline)
                 (log (NamespacesGet namespace) s1))"
  have c: "namespace_check k namespace s1 = (None, ?s4)"
    using n f cr by (simp add: namespace_check_notfound)
  from JSON_tail [OF p r c] n(3) SetNamespace_GetNamespace [OF n(3)] obtain ws where
    "trace (snd R) = trace ?s4 @ ws"
    "prefix [ResourcePatch gvr namespace (GetName (SetNamespace namespace obj0))
               MergePatchType manifestJSON] ws"
    unfolding R by auto
  then obtain ws' where "trace (snd R) = trace s1 @ ([NamespacesGet namespace, NamespacesCreate namespace,
                 ResourcePatch gvr namespace (GetName (SetNamespace namespace obj0))
                   MergePatchType manifestJSON] @ ws')"
    by (auto simp: prefix_def)
  from new_events_append [OF this]
  show "prefix [NamespacesGet namespace, NamespacesCreate namespace,
                 ResourcePatch gvr namespace (GetName (SetNamespace namespace obj0))
                   MergePatchType manifestJSON]
           (new_events s1 (snd R))"
    by simp
next
  fix e
  assume p: "json_Unmarshal k manifestJSON = Inr obj0"
    and r: "getCachedGVR k kind s = (Inr gvr, s1)"
    and f: "found = fst (Namespaces_Get k namespace s1)"
    and R: "R = CreateOrUpdateResourceJSON k namespace manifestJSON kind s"
    and n: "found = Some e" "\<not> IsNotFound found"
  have c: "namespace_check k namespace s1 = (Some e, log (NamespacesGet namespace) s1)"
    using n f by (simp add: namespace_check_error)
  show "R = (Inl (Errorf ''failed to retrieve namespace resource'' e),
              s1\<lparr>trace := trace s1 @ [NamespacesGet namespace]\<rparr>)"
    unfolding R JSON_check_failed [OF p r c] by (simp add: log_def)
next
  fix e
  assume p: "json_Unmarshal k manifestJSON = Inr obj0"
    and r: "getCachedGVR k kind s = (Inr gvr, s1)"
    and f: "found = fst (Namespaces_Get k namespace s1)"
    and cr: "created = namespace_reply k (trace s1 @ [NamespacesGet namespace]) (NamespacesCreate namespace)"
    and R: "R = CreateOrUpdateResourceJSON k namespace manifestJSON kind s"
    and n: "IsNotFound found" "created = Some e"
  let ?s4 = "log (NamespacesCreate namespace)
              (Printf (''Namespace '' @ namespace @ '' does not exist, creating one'' @ newline)
                 (log (NamespacesGet namespace) s1))"
  have c: "namespace_check k namespace s1 = (Some e, ?s4)"
    using n f cr by (simp add: namespace_check_notfound)
  show "fst R = Inl (Errorf ''failed to retrieve namespace resource'' e)"
    unfolding R JSON_check_failed [OF p r c] by simp
  show "new_events s1 (snd R) = [NamespacesGet namespace, NamespacesCreate namespace]"
    unfolding R JSON_check_failed [OF p r c] by (simp add: new_events_def)
qed

theorem namespace_creation_asymmetry_witness:
  "prefix [NamespacesGet ''default'', NamespacesCreate ''default'',
           ResourcePatch \<lparr>Group = [], Version = ''v1'', Resource = ''pods''\<rparr> ''default''
             ''my-pod'' MergePatchType example_json]
     (new_events (snd (getCachedGVR example_cluster ''Pod'' NewClient))
        (snd (CreateOrUpdateResourceJSON example_cluster ''default'' example_json ''Pod''
           NewClient))) \<and>
   filter is_namespace_call
     (new_events NewClient
        (snd (CreateOrUpdateResourceYAML example_cluster ''default'' example_yaml [] NewClient))) = []"
proof -
  let ?gvr = "\<lparr>Group = [], Version = ''v1'', Resource = ''pods''\<rparr>"
  let ?s1 = "snd (getCachedGVR example_cluster ''Pod'' NewClient)"
  have r: "getCachedGVR example_cluster ''Pod'' NewClient = (Inr ?gvr, ?s1)"
    using example_resolve_Pod [of NewClient] by (simp add: NewClient_def)
  show ?thesis
    using namespace_creation_asymmetry [where k = example_cluster
        and manifestJSON = example_json and ?obj0.0 = example_manifest and kind = "''Pod''"
        and s = NewClient and gvr = ?gvr and ?s1.0 = ?s1 and namespace = "''default''"
        and found = "Some not_found" and created = None
        and R = "CreateOrUpdateResourceJSON example_cluster ''default'' example_json ''Pod'' NewClient"
        and k' = example_cluster and namespace' = "''default''" and yamlManifest = example_yaml
        and kind' = "[]" and s' = NewClient]
      r
    by (simp add: example_object(2-4) example_parse example_dynamic example_Namespaces_Get
        example_Namespaces_Create)
qed

section \<open>Create or update: the empty namespace in the JSON variant\<close>

text \<open>
  Claim C10. The JSON variant sets the namespace of the document to its argument with no
  test of the argument: a call that gets as far as the patch addresses it to the
  argument. With the empty argument it never gets that far. The call always returns an
  error and sends no patch and no create; once the manifest is parsed and the kind
  resolved, the lookup of the namespace named by the empty string fails with an error
  that is not a not-found error, and the call returns it wrapped.
\<close>

theorem JSON_empty_namespace:
  "(json_Unmarshal k manifestJSON = Inr obj0 \<and>
    getCachedGVR k kind s = (Inr gvr, s1) \<and>
    namespace_check k namespace s1 = (None, s4) \<and>
    GetName (SetNamespace namespace obj0) \<noteq> [] \<longrightarrow>
      GetNamespace (SetNamespace namespace obj0) = namespace \<and>
      prefix [ResourcePatch gvr namespace (GetName (SetNamespace namespace obj0))
                MergePatchType manifestJSON]
        (new_events s4 (snd (CreateOrUpdateResourceJSON k namespace manifestJSON kind s)))) \<and>
   (\<exists>e. fst (CreateOrUpdateResourceJSON k' [] manifestJSON' kind' s') = Inl e) \<and>
   filter is_resource_write
     (new_events s' (snd (CreateOrUpdateResourceJSON k' [] manifestJSON' kind' s'))) = [] \<and>
   (json_Unmarshal k' manifestJSON' = Inr obj0' \<and>
    getCachedGVR k' kind' s' = (Inr gvr', s1') \<longrightarrow>
      \<not> IsNotFound (fst (Namespaces_Get k' [] s1')) \<and>
      CreateOrUpdateResourceJSON k' [] manifestJSON' kind' s' =
        (Inl (Errorf ''failed to retrieve namespace resource''
                (ErrorString ''resource name may not be empty'')),
         s1'\<lparr>trace := trace s1' @ [NamespacesGet []]\<rparr>))"
proof (intro conjI impI; (elim conjE)?)
  assume a: "json_Unmarshal k manifestJSON = Inr obj0" "getCachedGVR k kind s = (Inr gvr, s1)"
    "namespace_check k namespace s1 = (None, s4)"
    and n: "GetName (SetNamespace namespace obj0) \<noteq> []"
  show g: "GetNamespace (SetNamespace namespace obj0) = namespace"
    by (rule SetNamespace_GetNamespace [OF n])
  from JSON_tail [OF a] n obtain ws where
    "trace (snd (CreateOrUpdateResourceJSON k namespace manifestJSON kind s)) = trace s4 @ ws"
    "prefix [ResourcePatch gvr namespace (GetName (SetNamespace namespace obj0))
               MergePatchType manifestJSON] ws"
    unfolding g by blast
  then show "prefix [ResourcePatch gvr namespace (GetName (SetNamespace namespace obj0))
                MergePatchType manifestJSON]
        (new_events s4 (snd (CreateOrUpdateResourceJSON k namespace manifestJSON kind s)))"
    by (simp add: new_events_append)
next
  show "\<exists>e. fst (CreateOrUpdateResourceJSON k' [] manifestJSON' kind' s') = Inl e"
    using JSON_empty_all [of k' manifestJSON' kind' s'] by blast
  show "filter is_resource_write
     (new_events s' (snd (CreateOrUpdateResourceJSON k' [] manifestJSON' kind' s'))) = []"
    using JSON_empty_all [of k' manifestJSON' kind' s'] by blast
next
  show "\<not> IsNotFound (fst (Namespaces_Get k' [] s1'))"
    by (simp add: Namespaces_Get_empty)
next
  assume "json_Unmarshal k' manifestJSON' = Inr obj0'" "getCachedGVR k' kind' s' = (Inr gvr', s1')"
  then show "CreateOrUpdateResourceJSON k' [] manifestJSON' kind' s' =
        (Inl (Errorf ''failed to retrieve namespace resource''
                (ErrorString ''resource name may not be empty'')),
         s1'\<lparr>trace := trace s1' @ [NamespacesGet []]\<rparr>)"
    by (rule JSON_empty_reached)
qed

theorem JSON_empty_namespace_witness:
  "CreateOrUpdateResourceJSON example_cluster [] example_json ''Pod'' NewClient =
     (Inl (Errorf ''failed to retrieve namespace resource''
             (ErrorString ''resource name may not be empty'')),
      (snd (getCachedGVR example_cluster ''Pod'' NewClient))
        \<lparr>trace := trace (snd (getCachedGVR example_cluster ''Pod'' NewClient)) @
           [NamespacesGet []]\<rparr>) \<and>
   prefix [ResourcePatch \<lparr>Group = [], Version = ''v1'', Resource = ''pods''\<rparr> ''default''
             ''my-pod'' MergePatchType example_json]
     (new_events
        (snd (namespace_check example_cluster ''default''
           (snd (getCachedGVR example_cluster ''Pod'' NewClient))))
        (snd (CreateOrUpdateResourceJSON example_cluster ''default'' example_json ''Pod''
           NewClient)))"
proof -
  let ?gvr = "\<lparr>Group = [], Version = ''v1'', Resource = ''pods''\<rparr>"
  let ?s1 = "snd (getCachedGVR example_cluster ''Pod'' NewClient)"
  let ?s4 = "snd (namespace_check example_cluster ''default'' ?s1)"
  have r: "getCachedGVR example_cluster ''Pod'' NewClient = (Inr ?gvr, ?s1)"
    using example_resolve_Pod [of NewClient] by (simp add: NewClient_def)
  have c: "namespace_check example_cluster ''default'' ?s1 = (None, ?s4)"
    using example_namespace_check(1) [of ?s1] by (simp add: prod_eq_iff)
  show ?thesis
    using JSON_empty_namespace [where k = example_cluster and manifestJSON = example_json
        and ?obj0.0 = example_manifest and kind = "''Pod''" and s = NewClient and gvr = ?gvr
        and ?s1.0 = ?s1 and namespace = "''default''" and ?s4.0 = ?s4
        and k' = example_cluster and manifestJSON' = example_json and obj0' = example_manifest
        and kind' = "''Pod''" and s' = NewClient and gvr' = ?gvr and s1' = ?s1]
      r c
    by (simp add: example_object(2-4) example_parse)
qed


end
